theory Spec2Isabelle
  imports Main "HOL-Library.AList"
begin

section \<open>Errors\<close>

text \<open>
  A Go \<open>error\<close> is \<open>nil\<close> or an error value: \<open>error option\<close>, \<open>None\<close> for \<open>nil\<close>.
  \<open>errors.New\<close> makes a leaf. The helpers \<open>build.ExtendErr\<close> and
  \<open>build.ComposeErrors\<close> are not among the source files at hand; they are kept as
  constructors over the errors they are given, with the one property their call sites
  rely on: \<open>nil\<close> stays \<open>nil\<close> (\<open>Close\<close> passes the result of \<open>tg.Stop()\<close>
  straight to \<open>ExtendErr\<close>, and the logger cleanup composes a possibly-nil pair).
\<close>

datatype error = ErrorNew string | Extended string error | Composed "error list"

fun ExtendErr :: "string \<Rightarrow> error option \<Rightarrow> error option" where
  "ExtendErr s None = None"
| "ExtendErr s (Some e) = Some (Extended s e)"

definition ComposeErrors :: "error option list \<Rightarrow> error option" where
  "ComposeErrors errs =
     (case List.map_filter id errs of [] \<Rightarrow> None | e # es \<Rightarrow> Some (Composed (e # es)))"

text \<open>\<open>carries u e\<close>: the error \<open>e\<close> is \<open>u\<close> or was built around \<open>u\<close>.\<close>

fun carries :: "error \<Rightarrow> error \<Rightarrow> bool" where
  "carries u (ErrorNew s) = (u = ErrorNew s)"
| "carries u (Extended s e) = (u = Extended s e \<or> carries u e)"
| "carries u (Composed es) = (u = Composed es \<or> (\<exists>e \<in> set es. carries u e))"

section \<open>The contract manager (modules/host/contractmanager/contractmanager.go)\<close>

subsection \<open>Data\<close>

type_synonym Hash = nat
type_synonym sectorID = nat
type_synonym sectorLocation = "nat \<times> nat \<times> nat"

text \<open>
  A storage folder holds two open files; what the claims need of a file handle is the
  result of closing it.
\<close>

record storageFolder =
  metadataFile_Close :: "error option"
  sectorFile_Close :: "error option"

text \<open>The closures handed to \<open>tg.AfterStop\<close>, in the order of the source text.\<close>

datatype cleanup = DestructDependencies | CloseLogger | UnloadFiles

record ThreadGroup =
  stopped :: bool
  afterStopFns :: "cleanup list"

text \<open>
  The fields of \<open>ContractManager\<close>. Go maps are association lists (looked up with
  \<open>map_of\<close>); \<open>log\<close> is \<open>None\<close> for a nil logger, else the path of the open log
  file. The embedded \<open>dependencies\<close> are passed to every function instead.
\<close>

record ContractManager =
  sectorSalt :: Hash
  sectorLocations :: "(sectorID \<times> sectorLocation) list"
  storageFolders :: "(nat \<times> storageFolder) list"
  lockedSectors :: "(sectorID \<times> nat) list"
  log :: "string option"
  persistDir :: string
  tg :: ThreadGroup

text \<open>Every call that leaves the function, in the order it is made.\<close>

datatype event =
    Init | Destruct
  | MkdirAll string nat | NewLogger string
  | LogPrintln string "error option" | LogClose
  | LoadSettings | WalLoad | LoadSectorLocations | SpawnSyncLoop
  | Disrupt string
  | WalLock | WalUnlock
  | MetadataFileClose nat | SectorFileClose nat
  | TgStop | AfterStopCall cleanup

text \<open>
  The results of everything \<open>newContractManager\<close> calls but does not define: the
  \<open>dependencies\<close> interface, the logger, and the methods \<open>loadSettings\<close>,
  \<open>wal.load\<close>, \<open>loadSectorLocations\<close>, \<open>wal.spawnSyncLoop\<close> and \<open>tg.Stop\<close>,
  whose bodies are in other files.
\<close>

record dependencies =
  mkdirAll :: "string \<Rightarrow> nat \<Rightarrow> error option"
  newLogger :: "string \<Rightarrow> error option"
  disrupt :: "string \<Rightarrow> bool"
  log_Close :: "error option"
  settingsFile :: "error + Hash"
  walFile :: "error + (nat \<times> storageFolder) list"
  folderMetadata :: "(sectorID \<times> sectorLocation) list"
  syncLoop :: "error option"
  stopResult :: "error option"

text \<open>
  The running state: the manager behind the pointer \<open>cm\<close>, the local variable
  \<open>err\<close> of \<open>newContractManager\<close> (the cleanup closures capture it, so it outlives the
  call), and the calls made so far.
\<close>

record run =
  cm :: ContractManager
  err :: "error option"
  trace :: "event list"

definition emit :: "event \<Rightarrow> run \<Rightarrow> run" where
  "emit e r = r\<lparr>trace := trace r @ [e]\<rparr>"

definition logFile :: string where
  "logFile = ''contractmanager.log''"

definition filepath_Join :: "string \<Rightarrow> string \<Rightarrow> string" where
  "filepath_Join a b = a @ ''/'' @ b"

subsection \<open>The methods defined in other files\<close>

text \<open>
  Modelled from the spec: \<open>loadSettings\<close>. The settings are a persistent record
  containing \<open>sectorSalt\<close>, created once at first startup; loading them either
  fails or sets the salt.
\<close>

definition loadSettings :: "dependencies \<Rightarrow> run \<Rightarrow> error option \<times> run" where
  "loadSettings d r =
     (case settingsFile d of
        Inl e \<Rightarrow> (Some e, emit LoadSettings r)
      | Inr salt \<Rightarrow> (None, emit LoadSettings (r\<lparr>cm := (cm r)\<lparr>sectorSalt := salt\<rparr>\<rparr>)))"

text \<open>
  Modelled from the spec: \<open>wal.load\<close>. Recovery opens the WAL, replays it and leaves
  the storage folders open, or fails.
\<close>

definition wal_load :: "dependencies \<Rightarrow> run \<Rightarrow> error option \<times> run" where
  "wal_load d r =
     (case walFile d of
        Inl e \<Rightarrow> (Some e, emit WalLoad r)
      | Inr sfs \<Rightarrow> (None, emit WalLoad (r\<lparr>cm := (cm r)\<lparr>storageFolders := sfs\<rparr>\<rparr>)))"

text \<open>
  Modelled from the spec: \<open>loadSectorLocations\<close>. The location index is rebuilt from
  the folder metadata; the method returns nothing.
\<close>

definition loadSectorLocations :: "dependencies \<Rightarrow> run \<Rightarrow> run" where
  "loadSectorLocations d r =
     emit LoadSectorLocations (r\<lparr>cm := (cm r)\<lparr>sectorLocations := folderMetadata d\<rparr>\<rparr>)"

text \<open>Modelled from the spec: \<open>wal.spawnSyncLoop\<close> starts the sync loop or fails.\<close>

definition wal_spawnSyncLoop :: "dependencies \<Rightarrow> run \<Rightarrow> error option \<times> run" where
  "wal_spawnSyncLoop d r = (syncLoop d, emit SpawnSyncLoop r)"

subsection \<open>The thread group\<close>

text \<open>
  Modelled from the spec: \<open>ThreadGroup.AfterStop\<close>. \<open>afterStop(fn)\<close> registers a
  cleanup closure.
\<close>

definition AfterStop :: "cleanup \<Rightarrow> run \<Rightarrow> run" where
  "AfterStop fn r =
     r\<lparr>cm := (cm r)\<lparr>tg := (tg (cm r))\<lparr>afterStopFns := afterStopFns (tg (cm r)) @ [fn]\<rparr>\<rparr>\<rparr>"

text \<open>The body of the loop over \<open>cm.storageFolders\<close> in the third closure.\<close>

definition closeFolder :: "run \<Rightarrow> nat \<times> storageFolder \<Rightarrow> run" where
  "closeFolder r isf =
     (let r1 = emit (MetadataFileClose (fst isf)) (r\<lparr>err := metadataFile_Close (snd isf)\<rparr>);
          r2 = (if err r1 \<noteq> None
                then emit (LogPrintln ''Error closing the storage folder file handle'' (err r1)) r1
                else r1);
          r3 = emit (SectorFileClose (fst isf)) (r2\<lparr>err := sectorFile_Close (snd isf)\<rparr>)
      in if err r3 \<noteq> None
         then emit (LogPrintln ''Error closing the storage folder file handle'' (err r3)) r3
         else r3)"

text \<open>The bodies of the three closures of \<open>newContractManager\<close>.\<close>

fun runCleanup :: "dependencies \<Rightarrow> cleanup \<Rightarrow> run \<Rightarrow> run" where
  "runCleanup d DestructDependencies r = emit Destruct r"
| "runCleanup d CloseLogger r =
     (let r1 = emit LogClose r in r1\<lparr>err := ComposeErrors [log_Close d, err r1]\<rparr>)"
| "runCleanup d UnloadFiles r =
     emit WalUnlock (foldl closeFolder (emit WalLock r) (storageFolders (cm r)))"

text \<open>
  Modelled from the spec: \<open>ThreadGroup.Stop\<close>. \<open>stop()\<close> transitions to stopped,
  waits for all outstanding handles to be released, then invokes afterStop closures in
  reverse registration order. What it returns is a parameter.
\<close>

definition callCleanup :: "dependencies \<Rightarrow> cleanup \<Rightarrow> run \<Rightarrow> run" where
  "callCleanup d fn r = runCleanup d fn (emit (AfterStopCall fn) r)"

definition tg_Stop :: "dependencies \<Rightarrow> run \<Rightarrow> error option \<times> run" where
  "tg_Stop d r =
     (let fns = afterStopFns (tg (cm r));
          r1 = emit TgStop (r\<lparr>cm := (cm r)\<lparr>tg := (tg (cm r))\<lparr>stopped := True\<rparr>\<rparr>\<rparr>)
      in (stopResult d, fold (callCleanup d) (rev fns) r1))"

subsection \<open>Close and newContractManager\<close>

definition Close :: "dependencies \<Rightarrow> run \<Rightarrow> error option \<times> run" where
  "Close d r =
     (let (res, r') = tg_Stop d r
      in (ExtendErr ''error while stopping contract manager'' res, r'))"

text \<open>
  The deferred function. It runs after the operands of \<open>return\<close> have been evaluated;
  the results of \<open>newContractManager\<close> are unnamed, so its assignment to \<open>err\<close>
  changes the local variable only.
\<close>

definition deferred :: "dependencies \<Rightarrow> run \<Rightarrow> run" where
  "deferred d r =
     (if err r \<noteq> None then
        (let err1 = ExtendErr ''error during contract manager startup'' (err r);
             (res, r') = tg_Stop d r;
             err2 = ExtendErr ''error while stopping a partially started contract manager'' res
         in r'\<lparr>err := ComposeErrors [err1, err2]\<rparr>)
      else r)"

text \<open>\<open>return nil, e\<close>: the operand is fixed, then the deferred function runs.\<close>

definition return_nil ::
  "dependencies \<Rightarrow> error option \<Rightarrow> run \<Rightarrow> (ContractManager option \<times> error option) \<times> run" where
  "return_nil d e r = ((None, e), deferred d r)"

definition return_cm ::
  "dependencies \<Rightarrow> run \<Rightarrow> (ContractManager option \<times> error option) \<times> run" where
  "return_cm d r = (let r' = deferred d r in ((Some (cm r'), None), r'))"

definition newContractManager ::
  "dependencies \<Rightarrow> string \<Rightarrow> (ContractManager option \<times> error option) \<times> run" where
  "newContractManager d dir =
     (let r0 = \<lparr>cm = \<lparr>sectorSalt = 0, sectorLocations = [], storageFolders = [],
                       lockedSectors = [], log = None, persistDir = dir,
                       tg = \<lparr>stopped = False, afterStopFns = []\<rparr>\<rparr>,
                 err = None, trace = []\<rparr>;
          r1 = AfterStop DestructDependencies (emit Init r0);
          r2 = emit (MkdirAll (persistDir (cm r1)) 448)
                 (r1\<lparr>err := mkdirAll d (persistDir (cm r1)) 448\<rparr>)
      in if err r2 \<noteq> None then
           return_nil d (ExtendErr
             ''error while creating the persist directory for the contract manager'' (err r2)) r2
         else
     (let path = filepath_Join (persistDir (cm r2)) logFile;
          r3 = emit (NewLogger path) (r2\<lparr>err := newLogger d path\<rparr>);
          r4 = (if err r3 = None then r3\<lparr>cm := (cm r3)\<lparr>log := Some path\<rparr>\<rparr> else r3)
      in if err r4 \<noteq> None then
           return_nil d (ExtendErr
             ''error while creating the logger for the contract manager'' (err r4)) r4
         else
     (let r5 = AfterStop CloseLogger r4;
          (e6, r6') = loadSettings d r5;
          r6 = r6'\<lparr>err := e6\<rparr>
      in if err r6 \<noteq> None then
           return_nil d (ExtendErr
             ''error while loading contract manager atomic data'' (err r6))
             (emit (LogPrintln ''ERROR: Unable to load contract manager settings:'' (err r6)) r6)
         else
     (let (e7, r7') = wal_load d r6;
          r7 = r7'\<lparr>err := e7\<rparr>
      in if err r7 \<noteq> None then
           return_nil d (ExtendErr ''error while loading the WAL at startup'' (err r7))
             (emit (LogPrintln
                ''ERROR: Unable to load the contract manager write-ahead-log:'' (err r7)) r7)
         else
     (let r8 = AfterStop UnloadFiles r7;
          r9 = loadSectorLocations d r8;
          (e10, r10') = wal_spawnSyncLoop d r9;
          r10 = r10'\<lparr>err := e10\<rparr>
      in if err r10 \<noteq> None then
           return_nil d (ExtendErr
             ''error while spawning contract manager sync loop'' (err r10))
             (emit (LogPrintln
                ''ERROR: Unable to spawn the contract manager synchronization loop:''
                (err r10)) r10)
         else
     (let r11 = emit (Disrupt ''erroredStartup'') r10
      in if disrupt d ''erroredStartup'' then
           (let r12 = r11\<lparr>err := Some (ErrorNew ''startup disrupted'')\<rparr>
            in return_nil d (err r12) r12)
         else return_cm d r11))))))"

subsection \<open>Notions used to state the properties\<close>

text \<open>The calls made while one storage folder is closed.\<close>

definition folderEvents :: "nat \<times> storageFolder \<Rightarrow> event list" where
  "folderEvents isf =
     MetadataFileClose (fst isf) #
     (if metadataFile_Close (snd isf) \<noteq> None
      then [LogPrintln ''Error closing the storage folder file handle'' (metadataFile_Close (snd isf))]
      else []) @
     SectorFileClose (fst isf) #
     (if sectorFile_Close (snd isf) \<noteq> None
      then [LogPrintln ''Error closing the storage folder file handle'' (sectorFile_Close (snd isf))]
      else [])"

text \<open>The calls made by one closure when \<open>Stop\<close> invokes it, given the open folders.\<close>

definition cleanupEvents :: "(nat \<times> storageFolder) list \<Rightarrow> cleanup \<Rightarrow> event list" where
  "cleanupEvents sfs fn =
     (case fn of
        DestructDependencies \<Rightarrow> [AfterStopCall fn, Destruct]
      | CloseLogger \<Rightarrow> [AfterStopCall fn, LogClose]
      | UnloadFiles \<Rightarrow> [AfterStopCall fn, WalLock] @ concat (map folderEvents sfs) @ [WalUnlock])"

text \<open>\<open>precedes a b tr\<close>: \<open>b\<close> happens in \<open>tr\<close>, and \<open>a\<close> happens before the first \<open>b\<close>.\<close>

definition precedes :: "event \<Rightarrow> event \<Rightarrow> event list \<Rightarrow> bool" where
  "precedes a b tr = (b \<in> set tr \<and> a \<in> set (takeWhile (\<lambda>e. e \<noteq> b) tr))"

text \<open>The closures invoked in a trace, in the order of their invocation.\<close>

fun calls :: "event list \<Rightarrow> cleanup list" where
  "calls [] = []"
| "calls (AfterStopCall fn # es) = fn # calls es"
| "calls (e # es) = calls es"

text \<open>The first step of startup that fails, if any, in the order in which
  \<open>newContractManager\<close> takes the steps.\<close>

definition startupFailure :: "dependencies \<Rightarrow> string \<Rightarrow> error option" where
  "startupFailure d dir =
     (case mkdirAll d dir 448 of Some e \<Rightarrow> Some e | None \<Rightarrow>
     (case newLogger d (filepath_Join dir logFile) of Some e \<Rightarrow> Some e | None \<Rightarrow>
     (case settingsFile d of Inl e \<Rightarrow> Some e | Inr salt \<Rightarrow>
     (case walFile d of Inl e \<Rightarrow> Some e | Inr sfs \<Rightarrow>
     (case syncLoop d of Some e \<Rightarrow> Some e | None \<Rightarrow>
      if disrupt d ''erroredStartup'' then Some (ErrorNew ''startup disrupted'') else None)))))"

text \<open>Two concrete environments: one where every step succeeds and one folder is open, and one
  where the sync loop cannot be spawned.\<close>

definition okDeps :: dependencies where
  "okDeps = \<lparr>mkdirAll = (\<lambda>p m. None), newLogger = (\<lambda>p. None), disrupt = (\<lambda>s. False),
     log_Close = None, settingsFile = Inr 7,
     walFile = Inr [(3, \<lparr>metadataFile_Close = None,
                          sectorFile_Close = Some (ErrorNew ''bad file descriptor'')\<rparr>)],
     folderMetadata = [(11, (3, 0, 1))], syncLoop = None, stopResult = None\<rparr>"

definition syncFailDeps :: dependencies where
  "syncFailDeps = okDeps\<lparr>syncLoop := Some (ErrorNew ''thread group stopped'')\<rparr>"

section \<open>The wallet's seed scanner (modules/wallet/scan.go)\<close>

subsection \<open>Data\<close>

text \<open>
  \<open>types.Currency\<close> is a non-negative big integer; hashes, ids and seeds are opaque and
  only compared, so natural numbers stand for them. \<open>uint64\<close> arithmetic is written with
  its wrap-around.
\<close>

type_synonym Currency = nat
type_synonym UnlockHash = nat
type_synonym SiacoinOutputID = nat
type_synonym Seed = nat

definition u64 :: "nat \<Rightarrow> nat" where
  "u64 n = n mod 2 ^ 64"


datatype DiffDirection = DiffApply | DiffRevert

record SiacoinOutput =
  Value :: Currency
  UnlockHash :: UnlockHash

record SiafundOutput = SiacoinOutput +
  ClaimStart :: Currency

record SiacoinOutputDiff =
  Direction :: DiffDirection
  ID :: SiacoinOutputID
  SiacoinOutput :: SiacoinOutput

record SiafundOutputDiff =
  sfDirection :: DiffDirection
  sfID :: nat
  SiafundOutput :: SiafundOutput

record ConsensusChange =
  SiacoinOutputDiffs :: "SiacoinOutputDiff list"
  SiafundOutputDiffs :: "SiafundOutputDiff list"

record scannedOutput =
  outputID :: nat
  outputValue :: Currency
  seedIndex :: nat

record seedScanner =
  dustThreshold :: Currency
  keys :: "(UnlockHash \<times> nat) list"
  largestIndexSeen :: nat
  seed :: Seed
  siacoinOutputs :: "(SiacoinOutputID \<times> scannedOutput) list"




subsection \<open>Key generation\<close>

definition numKeys :: "seedScanner \<Rightarrow> nat" where
  "numKeys s = length (keys s)"

text \<open>
  The package function \<open>generateKeys(seed, start, n)\<close> is defined in another file. It
  returns the \<open>n\<close> keys of the seed with indices \<open>start\<close>, ..., \<open>start + n - 1\<close>;
  the parameter \<open>g\<close> gives the unlock hash of the key of a seed at an index.
\<close>

definition generateKeys :: "(Seed \<Rightarrow> nat \<Rightarrow> UnlockHash) \<Rightarrow> Seed \<Rightarrow> nat \<Rightarrow> nat \<Rightarrow> UnlockHash list" where
  "generateKeys g sd start n = map (g sd) [start..<start + n]"

text \<open>The method \<open>seedScanner.generateKeys\<close>: one map assignment per generated key.\<close>

definition seedScanner_generateKeys ::
  "(Seed \<Rightarrow> nat \<Rightarrow> UnlockHash) \<Rightarrow> seedScanner \<Rightarrow> nat \<Rightarrow> seedScanner" where
  "seedScanner_generateKeys g s n =
     (let initialProgress = numKeys s
      in s\<lparr>keys := foldl (\<lambda>ks ik. AList.update (snd ik) (u64 (initialProgress + fst ik)) ks)
                     (keys s) (enumerate 0 (generateKeys g (seed s) initialProgress n))\<rparr>)"

subsection \<open>ProcessConsensusChange\<close>

text \<open>The body of the first loop, over the siacoin output diffs.\<close>

definition updateOutput :: "seedScanner \<Rightarrow> SiacoinOutputDiff \<Rightarrow> seedScanner" where
  "updateOutput s diff =
     (if Direction diff = DiffApply then
        (case map_of (keys s) (UnlockHash (SiacoinOutput diff)) of
           Some index \<Rightarrow>
             if Value (SiacoinOutput diff) > dustThreshold s
             then s\<lparr>siacoinOutputs := AList.update (ID diff)
                      \<lparr>outputID = ID diff, outputValue = Value (SiacoinOutput diff),
                       seedIndex = index\<rparr> (siacoinOutputs s)\<rparr>
             else s
         | None \<Rightarrow> s)
      else if Direction diff = DiffRevert then
        (case map_of (keys s) (UnlockHash (SiacoinOutput diff)) of
           Some index \<Rightarrow> s\<lparr>siacoinOutputs := AList.delete (ID diff) (siacoinOutputs s)\<rparr>
         | None \<Rightarrow> s)
      else s)"

text \<open>The body of the second and of the third loop, for the unlock hash of the diff's output.\<close>

definition updateLargestIndexSeen :: "seedScanner \<Rightarrow> UnlockHash \<Rightarrow> seedScanner" where
  "updateLargestIndexSeen s uh =
     (case map_of (keys s) uh of
        Some index \<Rightarrow> if index > largestIndexSeen s then s\<lparr>largestIndexSeen := index\<rparr> else s
      | None \<Rightarrow> s)"

definition ProcessConsensusChange :: "seedScanner \<Rightarrow> ConsensusChange \<Rightarrow> seedScanner" where
  "ProcessConsensusChange s cc =
     (let s1 = foldl updateOutput s (SiacoinOutputDiffs cc);
          s2 = foldl (\<lambda>s diff. updateLargestIndexSeen s (UnlockHash (SiacoinOutput diff)))
                 s1 (SiacoinOutputDiffs cc)
      in foldl (\<lambda>s diff. updateLargestIndexSeen s (UnlockHash (SiafundOutput diff)))
           s2 (SiafundOutputDiffs cc))"

subsection \<open>scan\<close>







subsection \<open>Notions used to state the properties\<close>





text \<open>
  A siacoin diff takes effect on the output \<open>oid\<close> of a scanner when it is about that
  output, its unlock hash is one of the scanner's keys, and it is a revert or an applied
  output worth more than the dust threshold. Its outcome is then the entry of
  \<open>siacoinOutputs\<close> for that output: none after a revert, the scanned output after an
  apply.
\<close>

definition takesEffect :: "seedScanner \<Rightarrow> SiacoinOutputID \<Rightarrow> SiacoinOutputDiff \<Rightarrow> bool" where
  "takesEffect s oid d =
     (ID d = oid \<and> map_of (keys s) (UnlockHash (SiacoinOutput d)) \<noteq> None \<and>
      (Direction d = DiffRevert \<or> Value (SiacoinOutput d) > dustThreshold s))"

definition outcome :: "seedScanner \<Rightarrow> SiacoinOutputDiff \<Rightarrow> scannedOutput option" where
  "outcome s d =
     (if Direction d = DiffRevert then None
      else map_option
             (\<lambda>i. \<lparr>outputID = ID d, outputValue = Value (SiacoinOutput d), seedIndex = i\<rparr>)
             (map_of (keys s) (UnlockHash (SiacoinOutput d))))"

text \<open>
  A scanner with dust threshold 30 that knows the key with hash 2 and holds output 9, and
  three diffs for that key: an output worth exactly the threshold, one worth more, and the
  revert of output 9.
\<close>

definition exampleScanner :: seedScanner where
  "exampleScanner =
     \<lparr>dustThreshold = 30, keys = [(2, 2)], largestIndexSeen = 0, seed = 0,
      siacoinOutputs = [(9, \<lparr>outputID = 9, outputValue = 50, seedIndex = 2\<rparr>)]\<rparr>"

definition dustDiff :: SiacoinOutputDiff where
  "dustDiff = \<lparr>Direction = DiffApply, ID = 5, SiacoinOutput = \<lparr>Value = 30, UnlockHash = 2\<rparr>\<rparr>"

definition aboveDiff :: SiacoinOutputDiff where
  "aboveDiff = \<lparr>Direction = DiffApply, ID = 6, SiacoinOutput = \<lparr>Value = 31, UnlockHash = 2\<rparr>\<rparr>"

definition revertDiff :: SiacoinOutputDiff where
  "revertDiff = \<lparr>Direction = DiffRevert, ID = 9, SiacoinOutput = \<lparr>Value = 50, UnlockHash = 2\<rparr>\<rparr>"

definition exampleChange :: ConsensusChange where
  "exampleChange =
     \<lparr>SiacoinOutputDiffs = [dustDiff, aboveDiff, revertDiff], SiafundOutputDiffs = []\<rparr>"





section \<open>The renter's host uploader (modules/renter/negotiate.go)\<close>

subsection \<open>Data\<close>

text \<open>
  The message of an error, \<open>err.Error()\<close>. For the errors built by the \<open>build\<close>
  helpers the message is assumed to be the parts joined; nothing below depends on it.
\<close>

fun Error :: "error \<Rightarrow> string" where
  "Error (ErrorNew s) = s"
| "Error (Extended s e) = s @ '': '' @ Error e"
| "Error (Composed es) = concat (map (\<lambda>e. Error e @ ''; '') es)"

type_synonym FileContractID = nat
type_synonym TransactionID = nat
type_synonym BlockHeight = nat
type_synonym NetAddress = string

record SiaPublicKey =
  Algorithm :: string
  Key :: nat

record UnlockConditions =
  PublicKeys :: "SiaPublicKey list"
  SignaturesRequired :: nat

record FileContract =
  FileSize :: nat
  FileMerkleRoot :: Hash
  WindowStart :: BlockHeight
  WindowEnd :: BlockHeight
  Payout :: Currency
  ValidProofOutputs :: "SiacoinOutput list"
  MissedProofOutputs :: "SiacoinOutput list"
  fcUnlockHash :: UnlockHash
  RevisionNumber :: nat

text \<open>Of a transaction, the inputs that fund it, its file contracts and its signatures.\<close>

record Transaction =
  SiacoinInputs :: "nat list"
  FileContracts :: "FileContract list"
  TransactionSignatures :: "nat list"

record HostSettings =
  IPAddress :: NetAddress
  Price :: Currency
  WindowSize :: BlockHeight
  hostUnlockHash :: UnlockHash

text \<open>The renter's own \<open>fileContract\<close> struct, as far as these functions fill it.\<close>

record fileContract =
  fcID :: FileContractID
  fcIP :: NetAddress
  fcWindowStart :: BlockHeight

record Renter =
  blockHeight :: BlockHeight
  entropy :: Hash
  contracts :: "(FileContractID \<times> FileContract) list"

text \<open>
  The uploader, with the renter it points to. \<open>conn\<close> and the locks have no content
  here; the results of using the connection are in the environments below.
\<close>

record hostUploader =
  settings :: HostSettings
  unlockConditions :: UnlockConditions
  secretKey :: nat
  contract :: fileContract
  lastTxn :: Transaction
  renter :: Renter

definition SignatureEd25519 :: string where
  "SignatureEd25519 = ''ed25519''"

definition AcceptResponse :: string where
  "AcceptResponse = ''accept''"

definition ErrDuplicateTransactionSet :: error where
  "ErrDuplicateTransactionSet = ErrorNew ''transaction set contains only duplicate transactions''"

definition emptyTransaction :: Transaction where
  "emptyTransaction = \<lparr>SiacoinInputs = [], FileContracts = [], TransactionSignatures = []\<rparr>"

subsection \<open>Close\<close>

text \<open>
  What \<open>Close\<close> gets from outside: the results of writing to and closing the
  connection, and the transaction pool.
\<close>

record closing =
  writeEmptyRevision :: "error option"
  conn_Close :: "error option"
  tpool_AcceptTransactionSet :: "Transaction list \<Rightarrow> error option"

datatype net_event =
    WriteObject Transaction | ConnClose | AcceptTransactionSet "Transaction list"

text \<open>
  \<open>hostUploader.Close\<close>. The results of \<open>WriteObject\<close> and \<open>conn.Close\<close> are
  dropped; \<open>err\<close> is the pool's answer, the \<open>if\<close> on it has an empty body, and
  \<open>err\<close> is returned.
\<close>

definition hostUploader_Close :: "closing \<Rightarrow> hostUploader \<Rightarrow> error option \<times> net_event list" where
  "hostUploader_Close env hu =
     (let err = tpool_AcceptTransactionSet env [lastTxn hu]
      in (err, [WriteObject emptyTransaction, ConnClose, AcceptTransactionSet [lastTxn hu]]))"

text \<open>Two pools, one accepting every set and one refusing every set, and an uploader.\<close>

definition acceptingPool :: closing where
  "acceptingPool = \<lparr>writeEmptyRevision = None, conn_Close = None,
                     tpool_AcceptTransactionSet = (\<lambda>ts. None)\<rparr>"

definition refusingPool :: closing where
  "refusingPool = \<lparr>writeEmptyRevision = None, conn_Close = None,
                    tpool_AcceptTransactionSet = (\<lambda>ts. Some (ErrorNew ''transaction set is invalid''))\<rparr>"

definition exampleUploader :: hostUploader where
  "exampleUploader =
     \<lparr>settings = \<lparr>IPAddress = ''host:9982'', Price = 2, WindowSize = 10, hostUnlockHash = 77\<rparr>,
      unlockConditions = \<lparr>PublicKeys = [], SignaturesRequired = 0\<rparr>,
      secretKey = 0,
      contract = \<lparr>fcID = 0, fcIP = [], fcWindowStart = 0\<rparr>,
      lastTxn = emptyTransaction,
      renter = \<lparr>blockHeight = 100, entropy = 1, contracts = []\<rparr>\<rparr>"

subsection \<open>negotiateContract\<close>

text \<open>
  What \<open>negotiateContract\<close> gets from outside, in the order it asks: the network (each
  read gives an error or the object read), the wallet's transaction builder, the
  transaction pool, and the functions of the \<open>crypto\<close> and \<open>types\<close> packages.
  \<open>builder_View fc\<close> is what \<open>View()\<close> returns after \<open>AddFileContract(fc)\<close>: the
  transaction and its parents.
\<close>

record negotiation =
  dial :: "error option"
  writeRPCID :: "error option"
  readHostPublicKey :: "error + SiaPublicKey"
  writeOurPublicKey :: "error option"
  builder_FundSiacoins :: "Currency \<Rightarrow> error option"
  builder_View :: "FileContract \<Rightarrow> Transaction \<times> Transaction list"
  writeTxnSet :: "error option"
  readResponse :: "error + string"
  readHostTxnSet :: "error + Transaction list"
  builder_Sign :: "error + Transaction list"
  writeSignedTxnSet :: "error option"
  readSignedHostTxnSet :: "error + Transaction list"
  tpool_Accept :: "Transaction list \<Rightarrow> error option"
  HashAll :: "Hash \<Rightarrow> SiaPublicKey \<Rightarrow> Hash"
  GenerateDeterministic :: "Hash \<Rightarrow> nat \<times> nat"
  UnlockConditions_UnlockHash :: "UnlockConditions \<Rightarrow> UnlockHash"
  MulFloat_1_05 :: "Currency \<Rightarrow> Currency"
  Tax :: "BlockHeight \<Rightarrow> Currency \<Rightarrow> Currency"
  Transaction_ID :: "Transaction \<Rightarrow> TransactionID"
  FileContractID :: "Transaction \<Rightarrow> nat \<Rightarrow> FileContractID"

text \<open>
  The file contract that \<open>negotiateContract\<close> proposes. \<open>Currency.Sub\<close> is
  subtraction that stops at zero here; the tax is a fraction of the payout.
\<close>

definition proposedContract ::
  "negotiation \<Rightarrow> hostUploader \<Rightarrow> nat \<Rightarrow> BlockHeight \<Rightarrow> UnlockHash \<Rightarrow> FileContract" where
  "proposedContract env hu filesize duration renterAddress =
     (let height = blockHeight (renter hu);
          renterCost = MulFloat_1_05 env (Price (settings hu) * u64 filesize * u64 duration);
          payout = renterCost;
          fc = \<lparr>FileSize = 0, FileMerkleRoot = 0,
                WindowStart = u64 (height + duration),
                WindowEnd = u64 (height + duration + WindowSize (settings hu)),
                Payout = payout, ValidProofOutputs = [], MissedProofOutputs = [],
                fcUnlockHash = UnlockConditions_UnlockHash env (unlockConditions hu),
                RevisionNumber = 0\<rparr>;
          valid = [\<lparr>Value = renterCost - Tax env (blockHeight (renter hu)) (Payout fc),
                    UnlockHash = renterAddress\<rparr>,
                   \<lparr>Value = 0, UnlockHash = hostUnlockHash (settings hu)\<rparr>]
      in fc\<lparr>ValidProofOutputs := valid,
            MissedProofOutputs := [valid ! 0, \<lparr>Value = 0, UnlockHash = 0\<rparr>]\<rparr>)"

text \<open>
  \<open>negotiateContract\<close> returns the error, the uploader as it leaves it, and whether it
  called \<open>txnBuilder.Drop()\<close>.
\<close>

definition fail :: "string \<Rightarrow> error \<Rightarrow> error option" where
  "fail msg e = Some (ErrorNew (msg @ Error e))"

definition negotiateContract ::
  "negotiation \<Rightarrow> hostUploader \<Rightarrow> nat \<Rightarrow> BlockHeight \<Rightarrow> UnlockHash
     \<Rightarrow> error option \<times> hostUploader \<times> bool" where
  "negotiateContract env hu filesize duration renterAddress =
     (case dial env of Some e \<Rightarrow> (Some e, hu, False) | None \<Rightarrow>
     (case writeRPCID env of
        Some e \<Rightarrow> (fail ''couldn't initiate RPC: '' e, hu, False) | None \<Rightarrow>
     (case readHostPublicKey env of
        Inl e \<Rightarrow> (fail ''couldn't read host's public key: '' e, hu, False)
      | Inr hostPublicKey \<Rightarrow>
     (let entropy = HashAll env (entropy (renter hu)) hostPublicKey;
          ourSK = fst (GenerateDeterministic env entropy);
          ourPK = snd (GenerateDeterministic env entropy);
          ourPublicKey = \<lparr>Algorithm = SignatureEd25519, Key = ourPK\<rparr>;
          hu1 = hu\<lparr>secretKey := ourSK\<rparr>
      in case writeOurPublicKey env of
        Some e \<Rightarrow> (fail ''couldn't send our public key: '' e, hu1, False) | None \<Rightarrow>
     (let hu2 = hu1\<lparr>unlockConditions :=
                  \<lparr>PublicKeys = [ourPublicKey, hostPublicKey], SignaturesRequired = 2\<rparr>\<rparr>;
          fc = proposedContract env hu2 filesize duration renterAddress
      in case builder_FundSiacoins env (Payout fc) of
        Some e \<Rightarrow> (Some e, hu2, False) | None \<Rightarrow>
     (let txn = fst (builder_View env fc);
          parents = snd (builder_View env fc);
          txnSet = parents @ [txn];
          fcid = FileContractID env txn 0
      in case writeTxnSet env of
        Some e \<Rightarrow> (fail ''couldn't send our proposed contract: '' e, hu2, True) | None \<Rightarrow>
     (case readResponse env of
        Inl e \<Rightarrow> (fail ''couldn't read the host's response to our proposed contract: '' e,
                  hu2, True)
      | Inr response \<Rightarrow>
        if response \<noteq> AcceptResponse
        then (Some (ErrorNew (''host rejected proposed contract: '' @ response)), hu2, True)
        else
     (case readHostTxnSet env of
        Inl e \<Rightarrow> (fail ''couldn't read the host's updated contract: '' e, hu2, True)
      | Inr hostTxnSet \<Rightarrow>
        if length hostTxnSet \<noteq> length txnSet
        then (Some (ErrorNew ''host sent bad collateral transaction''), hu2, True)
        else if \<exists>i \<in> set [0..<length hostTxnSet].
                  Transaction_ID env (hostTxnSet ! i) \<noteq> Transaction_ID env (txnSet ! i)
        then (Some (ErrorNew ''host sent bad collateral transaction''), hu2, True)
        else
     (case builder_Sign env of
        Inl e \<Rightarrow> (Some e, hu2, True)
      | Inr signedTxnSet \<Rightarrow>
     (case writeSignedTxnSet env of
        Some e \<Rightarrow> (fail ''couldn't send the contract signed by us: '' e, hu2, True) | None \<Rightarrow>
     (case readSignedHostTxnSet env of
        Inl e \<Rightarrow> (fail ''couldn't read the contract signed by the host: '' e, hu2, True)
      | Inr signedHostTxnSet \<Rightarrow>
     (let err0 = tpool_Accept env signedHostTxnSet;
          err = (if err0 = Some ErrDuplicateTransactionSet then None else err0)
      in case err of
        Some e \<Rightarrow> (Some e, hu2, True)
      | None \<Rightarrow>
          (None,
           hu2\<lparr>contract := \<lparr>fcID = fcid, fcIP = IPAddress (settings hu2),
                            fcWindowStart = WindowStart fc\<rparr>,
               renter := (renter hu2)\<lparr>contracts :=
                            AList.update fcid fc (contracts (renter hu2))\<rparr>\<rparr>,
           False)))))))))))))"

text \<open>
  A negotiation in which every step succeeds. The wallet's builder already holds another
  file contract, so the proposed one is the second of the transaction; the id of the
  contract at index \<open>i\<close> is taken to be \<open>10 * FileSize + i\<close> of that contract, which
  tells the contracts of this example apart.
\<close>

definition otherContract :: FileContract where
  "otherContract =
     \<lparr>FileSize = 4, FileMerkleRoot = 0, WindowStart = 0, WindowEnd = 0, Payout = 0,
      ValidProofOutputs = [], MissedProofOutputs = [], fcUnlockHash = 0, RevisionNumber = 0\<rparr>"

definition exampleNegotiation :: negotiation where
  "exampleNegotiation =
     \<lparr>dial = None, writeRPCID = None,
      readHostPublicKey = Inr \<lparr>Algorithm = ''ed25519'', Key = 5\<rparr>,
      writeOurPublicKey = None,
      builder_FundSiacoins = (\<lambda>c. None),
      builder_View = (\<lambda>fc. (\<lparr>SiacoinInputs = [1], FileContracts = [otherContract, fc],
                                TransactionSignatures = []\<rparr>, [])),
      writeTxnSet = None, readResponse = Inr ''accept'',
      readHostTxnSet = Inr [emptyTransaction],
      builder_Sign = Inr [emptyTransaction],
      writeSignedTxnSet = None,
      readSignedHostTxnSet = Inr [emptyTransaction],
      tpool_Accept = (\<lambda>ts. None),
      HashAll = (\<lambda>h k. h + Key k), GenerateDeterministic = (\<lambda>h. (h, h + 1)),
      UnlockConditions_UnlockHash = (\<lambda>uc. 9),
      MulFloat_1_05 = (\<lambda>c. c + c div 20), Tax = (\<lambda>h c. c div 25),
      Transaction_ID = (\<lambda>t. 0),
      FileContractID = (\<lambda>t i. 10 * FileSize (FileContracts t ! i) + i)\<rparr>"

section \<open>Host weights (package hostdb, the last part of negotiate.go)\<close>

text \<open>
  \<open>consensus.Currency\<close> is defined outside these files. It is an arbitrary-precision
  integer (its \<open>Sign()\<close> can be negative, zero or positive) with the integer operations:
  \<open>Mul\<close>, \<open>Div\<close>, which panics when the divisor is zero (\<open>None\<close>) and otherwise
  rounds the quotient down, and \<open>Sqrt\<close>, the square root rounded down.
\<close>

type_synonym consensus_Currency = int

definition NewCurrency64 :: "nat \<Rightarrow> consensus_Currency" where
  "NewCurrency64 n = int (u64 n)"

definition Currency_Sign :: "consensus_Currency \<Rightarrow> int" where
  "Currency_Sign c = sgn c"

definition Currency_Mul :: "consensus_Currency \<Rightarrow> consensus_Currency \<Rightarrow> consensus_Currency" where
  "Currency_Mul a b = a * b"

definition Currency_Div :: "consensus_Currency \<Rightarrow> consensus_Currency \<Rightarrow> consensus_Currency option" where
  "Currency_Div a b = (if b = 0 then None else Some (a div b))"

fun sqrt_below :: "nat \<Rightarrow> nat \<Rightarrow> nat" where
  "sqrt_below n 0 = 0"
| "sqrt_below n (Suc k) = (if Suc k * Suc k \<le> n then Suc k else sqrt_below n k)"

definition Currency_Sqrt :: "consensus_Currency \<Rightarrow> consensus_Currency" where
  "Currency_Sqrt c = int (sqrt_below (nat c) (nat c))"

record HostEntry =
  Price :: consensus_Currency
  Collateral :: consensus_Currency
  Freeze :: consensus_Currency

text \<open>\<open>entryWeight\<close>; \<open>None\<close> is the panic of a division by zero.\<close>

definition entryWeight :: "HostEntry \<Rightarrow> consensus_Currency option" where
  "entryWeight entry =
     (let entry1 = (if Currency_Sign (Price entry) \<le> 0
                    then entry\<lparr>Price := NewCurrency64 1\<rparr> else entry);
          entry2 = (if Currency_Sign (Collateral entry1) \<le> 0
                    then entry1\<lparr>Collateral := NewCurrency64 1\<rparr> else entry1);
          entry3 = (if Currency_Sign (Freeze entry2) \<le> 0
                    then entry2\<lparr>Freeze := NewCurrency64 1\<rparr> else entry2)
      in Currency_Div (Currency_Mul (Freeze entry3) (Collateral entry3))
           (Currency_Sqrt (Price entry3)))"

text \<open>A host that asks the price 4 and offers collateral 1 and freeze 1.\<close>

definition cheapHost :: HostEntry where
  "cheapHost = \<lparr>Price = 4, Collateral = 1, Freeze = 1\<rparr>"

section \<open>The operations on sectors and storage folders\<close>

text \<open>
  The public operations of the contract manager other than \<open>Close\<close> are defined in
  files other than the three at hand. The definitions of this section follow the
  specification's description of them (its sections 2, 3, 4.1, 4.3, 4.6 and 7).
\<close>

datatype store_error =
    StorageFull | SizeMismatch | Stopped | UnknownSector | DiskError
  | PathInUse | CapacityNotAligned | InsufficientSpace | UnknownFolder | ShrinkImpossible

text \<open>
  Modelled from the spec: the sector location, the tuple
  \<open>{folderID: u16, index: u32, count: u16}\<close>.
\<close>

record location =
  folderID :: nat
  slot :: nat
  refCount :: nat

text \<open>
  Modelled from the spec: the storage folder, with its path, its capacity in slots, its
  usage bitmap, the contents of its sector file (the payload written at each slot) and its
  availability flag. The file handles, the progress state and the lock have no part in
  what follows.
\<close>

record folder =
  folderPath :: string
  capacity :: nat
  usage :: "bool list"
  sectorFile :: "(nat \<times> string) list"
  available :: bool

text \<open>
  Modelled from the spec: the state of the contract manager that the operations use: the
  sector size and the granularity (constants of the host), the salt, the storage folders
  keyed by their id, the sector-location index, and whether the thread group has been
  stopped.
\<close>

record store =
  sectorSize :: nat
  granularity :: nat
  hostSalt :: Hash
  folders :: "(nat \<times> folder) list"
  locations :: "(sectorID \<times> location) list"
  shutdown :: bool

text \<open>
  Modelled from the spec: what it names without defining it: the keyed hash of the salt and
  the Merkle root that gives the sector id, \<open>hash(id)\<close> of the slot placement, and the
  free space of the device that holds a path, in bytes.
\<close>

record externals =
  sectorID_of :: "Hash \<Rightarrow> Hash \<Rightarrow> sectorID"
  placement :: "sectorID \<Rightarrow> nat"
  deviceFree :: "string \<Rightarrow> nat"

text \<open>Modelled from the spec: a slot is in use when its bit of the usage bitmap is set.\<close>

definition inUse :: "folder \<Rightarrow> nat \<Rightarrow> bool" where
  "inUse f i = (i < length (usage f) \<and> usage f ! i)"

definition freeSlots :: "folder \<Rightarrow> nat" where
  "freeSlots f = length (filter (\<lambda>i. \<not> inUse f i) [0..<capacity f])"

text \<open>
  Modelled from the spec: the slot placement. The id is folded into a folder choice
  weighted by each folder's free-slot count; folders without free slots are never chosen,
  and writes skip unavailable folders.
\<close>

fun chooseFolder :: "nat \<Rightarrow> (nat \<times> folder) list \<Rightarrow> (nat \<times> folder) option" where
  "chooseFolder r [] = None"
| "chooseFolder r (p # ps) =
     (if r < freeSlots (snd p) then Some p else chooseFolder (r - freeSlots (snd p)) ps)"

definition pickFolder ::
  "externals \<Rightarrow> (nat \<times> folder) list \<Rightarrow> sectorID \<Rightarrow> (nat \<times> folder) option" where
  "pickFolder x fs sid =
     (let candidates = filter (\<lambda>p. available (snd p) \<and> 0 < freeSlots (snd p)) fs;
          total = sum_list (map (\<lambda>p. freeSlots (snd p)) candidates)
      in if total = 0 then None else chooseFolder (placement x sid mod total) candidates)"

text \<open>
  Modelled from the spec: within the folder, probe from \<open>hash(id) mod capacity\<close>,
  linearly over the usage bitmap, until an unset bit is found.
\<close>

definition probe :: "externals \<Rightarrow> folder \<Rightarrow> sectorID \<Rightarrow> nat option" where
  "probe x f sid =
     find (\<lambda>i. \<not> inUse f i)
       (map (\<lambda>k. (placement x sid mod capacity f + k) mod capacity f) [0..<capacity f])"

text \<open>The folder, the folder's id and the slot for a new sector, among the given folders.\<close>

definition place ::
  "externals \<Rightarrow> (nat \<times> folder) list \<Rightarrow> sectorID \<Rightarrow> (nat \<times> folder \<times> nat) option" where
  "place x fs sid =
     (case pickFolder x fs sid of
        None \<Rightarrow> None
      | Some p \<Rightarrow>
          (case probe x (snd p) sid of None \<Rightarrow> None | Some i \<Rightarrow> Some (fst p, snd p, i)))"

text \<open>Writing a payload at a slot: the bit is set and the sector file holds the payload.\<close>

definition markUsed :: "folder \<Rightarrow> nat \<Rightarrow> bool list" where
  "markUsed f i = (usage f @ replicate (Suc i - length (usage f)) False)[i := True]"

definition writeSlot :: "folder \<Rightarrow> nat \<Rightarrow> string \<Rightarrow> folder" where
  "writeSlot f i payload =
     f\<lparr>usage := markUsed f i, sectorFile := AList.update i payload (sectorFile f)\<rparr>"

text \<open>
  Modelled from the spec: \<open>addSector(root, data)\<close>. A stopped manager answers
  "stopped" without touching the state; the payload must have the sector size. Content
  that is already indexed occupies its one physical slot: only its reference count goes
  up. New content gets a slot by the placement, the payload is written at the slot and the
  index is updated with the count 1; without a free slot the answer is "storage full".
\<close>

definition addSector ::
  "externals \<Rightarrow> store \<Rightarrow> Hash \<Rightarrow> string \<Rightarrow> store_error + sectorID \<times> store" where
  "addSector x st root payload =
     (if shutdown st then Inl Stopped
      else if length payload \<noteq> sectorSize st then Inl SizeMismatch
      else
        (let sid = sectorID_of x (hostSalt st) root
         in case map_of (locations st) sid of
              Some loc \<Rightarrow>
                Inr (sid, st\<lparr>locations := AList.update sid
                                (loc\<lparr>refCount := Suc (refCount loc)\<rparr>) (locations st)\<rparr>)
            | None \<Rightarrow>
                (case place x (folders st) sid of
                   None \<Rightarrow> Inl StorageFull
                 | Some (fid, f, i) \<Rightarrow>
                     Inr (sid,
                       st\<lparr>folders := AList.update fid (writeSlot f i payload) (folders st),
                          locations := AList.update sid
                             \<lparr>folderID = fid, slot = i, refCount = 1\<rparr> (locations st)\<rparr>))))"

text \<open>
  Modelled from the spec: \<open>addSectorBatch(items)\<close>: the items are added one after the
  other, each with its own success or error.
\<close>

fun addSectorBatch ::
  "externals \<Rightarrow> store \<Rightarrow> (Hash \<times> string) list \<Rightarrow> (store_error + sectorID) list \<times> store" where
  "addSectorBatch x st [] = ([], st)"
| "addSectorBatch x st (item # items) =
     (case addSector x st (fst item) (snd item) of
        Inl e \<Rightarrow>
          (Inl e # fst (addSectorBatch x st items), snd (addSectorBatch x st items))
      | Inr r \<Rightarrow>
          (Inr (fst r) # fst (addSectorBatch x (snd r) items),
           snd (addSectorBatch x (snd r) items)))"


text \<open>
  Modelled from the spec: \<open>removeSector(id)\<close>. The reference count goes down by one;
  the sector is destroyed and its slot freed only when the count reaches zero.
\<close>

definition removeSector :: "store \<Rightarrow> sectorID \<Rightarrow> store_error + store" where
  "removeSector st sid =
     (if shutdown st then Inl Stopped
      else case map_of (locations st) sid of
             None \<Rightarrow> Inl UnknownSector
           | Some loc \<Rightarrow>
               if 1 < refCount loc
               then Inr (st\<lparr>locations := AList.update sid
                               (loc\<lparr>refCount := refCount loc - 1\<rparr>) (locations st)\<rparr>)
               else Inr (st\<lparr>locations := AList.delete sid (locations st),
                            folders :=
                              (case map_of (folders st) (folderID loc) of
                                 None \<Rightarrow> folders st
                               | Some f \<Rightarrow>
                                   AList.update (folderID loc)
                                     (f\<lparr>usage := (usage f)[slot loc := False]\<rparr>)
                                     (folders st))\<rparr>))"

text \<open>
  Modelled from the spec: \<open>addStorageFolder(path, capacity)\<close>. The path must not be in
  use, the capacity must be a multiple of the granularity, and the device must have room
  for the sector file; the new folder has all its slots free. The specification does not
  say how the id is chosen: it is an id above those of the folders there are.
\<close>

definition unusedID :: "(nat \<times> folder) list \<Rightarrow> nat" where
  "unusedID fs = foldr (\<lambda>p m. max (Suc (fst p)) m) fs 0"

definition addStorageFolder :: "externals \<Rightarrow> store \<Rightarrow> string \<Rightarrow> nat \<Rightarrow> store_error + store" where
  "addStorageFolder x st p cap =
     (if shutdown st then Inl Stopped
      else if p \<in> set (map (\<lambda>q. folderPath (snd q)) (folders st)) then Inl PathInUse
      else if cap mod granularity st \<noteq> 0 then Inl CapacityNotAligned
      else if deviceFree x p < cap * sectorSize st then Inl InsufficientSpace
      else Inr (st\<lparr>folders := folders st @
                   [(unusedID (folders st),
                     \<lparr>folderPath = p, capacity = cap, usage = replicate cap False,
                      sectorFile = [], available = True\<rparr>)]\<rparr>))"

text \<open>
  Modelled from the spec: moving sectors out of a folder, for shrink and remove. Each
  sector gets a place in another folder by the slot placement, its payload is written
  there and its index entry points there, with its count; if no destination can be found
  for some sector, nothing is moved.
\<close>

definition relocate :: "externals \<Rightarrow> nat \<Rightarrow> store \<Rightarrow> sectorID \<Rightarrow> store option" where
  "relocate x fid st sid =
     (case map_of (locations st) sid of
        None \<Rightarrow> Some st
      | Some loc \<Rightarrow>
          (case place x (AList.delete fid (folders st)) sid of
             None \<Rightarrow> None
           | Some (did, df, i) \<Rightarrow>
               (let payload =
                      (case map_of (folders st) fid of
                         None \<Rightarrow> replicate (sectorSize st) (CHR 0x00)
                       | Some f \<Rightarrow>
                           (case map_of (sectorFile f) (slot loc) of
                              None \<Rightarrow> replicate (sectorSize st) (CHR 0x00)
                            | Some payload \<Rightarrow> payload))
                in Some (st\<lparr>folders := AList.update did (writeSlot df i payload) (folders st),
                            locations := AList.update sid
                               (loc\<lparr>folderID := did, slot := i\<rparr>) (locations st)\<rparr>))))"

fun evacuate :: "externals \<Rightarrow> nat \<Rightarrow> store \<Rightarrow> sectorID list \<Rightarrow> store option" where
  "evacuate x fid st [] = Some st"
| "evacuate x fid st (sid # sids) =
     (case relocate x fid st sid of
        None \<Rightarrow> None
      | Some st' \<Rightarrow> evacuate x fid st' sids)"

text \<open>The sectors of a folder at the slots from \<open>lo\<close> on.\<close>

definition occupants :: "store \<Rightarrow> nat \<Rightarrow> nat \<Rightarrow> sectorID list" where
  "occupants st fid lo =
     map fst (filter (\<lambda>p. folderID (snd p) = fid \<and> lo \<le> slot (snd p)) (locations st))"

text \<open>
  Modelled from the spec: \<open>resizeStorageFolder(id, newCap)\<close>. The capacity stays a
  multiple of the granularity. Growing extends the sector file and the bitmap with free
  slots. Shrinking moves every sector of the departing region to another folder and then
  cuts the folder; if some sector has no destination the answer is "shrink impossible"
  and no state changes.
\<close>

definition resizeStorageFolder ::
  "externals \<Rightarrow> store \<Rightarrow> nat \<Rightarrow> nat \<Rightarrow> store_error + store" where
  "resizeStorageFolder x st fid newCap =
     (if shutdown st then Inl Stopped
      else case map_of (folders st) fid of
             None \<Rightarrow> Inl UnknownFolder
           | Some f \<Rightarrow>
               if newCap mod granularity st \<noteq> 0 then Inl CapacityNotAligned
               else if capacity f \<le> newCap
               then Inr (st\<lparr>folders := AList.update fid
                              (f\<lparr>capacity := newCap,
                                 usage := usage f @ replicate (newCap - length (usage f)) False\<rparr>)
                              (folders st)\<rparr>)
               else
                 (case evacuate x fid st (occupants st fid newCap) of
                    None \<Rightarrow> Inl ShrinkImpossible
                  | Some st1 \<Rightarrow>
                      Inr (st1\<lparr>folders := AList.update fid
                                 (f\<lparr>capacity := newCap,
                                    usage := take newCap (usage f),
                                    sectorFile := filter (\<lambda>q. fst q < newCap) (sectorFile f)\<rparr>)
                                 (folders st1)\<rparr>)))"

text \<open>
  Modelled from the spec: \<open>removeStorageFolder(id, force)\<close>. The folder is destroyed
  after all its sectors have been moved to other folders. If that is impossible the answer
  is "shrink impossible", unless \<open>force\<close> is set: then the folder is destroyed with the
  sectors it holds.
\<close>

definition removeStorageFolder ::
  "externals \<Rightarrow> store \<Rightarrow> nat \<Rightarrow> bool \<Rightarrow> store_error + store" where
  "removeStorageFolder x st fid force =
     (if shutdown st then Inl Stopped
      else case map_of (folders st) fid of
             None \<Rightarrow> Inl UnknownFolder
           | Some f \<Rightarrow>
               (case evacuate x fid st (occupants st fid 0) of
                  Some st1 \<Rightarrow> Inr (st1\<lparr>folders := AList.delete fid (folders st1)\<rparr>)
                | None \<Rightarrow>
                    if force
                    then Inr (st\<lparr>folders := AList.delete fid (folders st),
                                 locations := filter (\<lambda>p. folderID (snd p) \<noteq> fid)
                                                (locations st)\<rparr>)
                    else Inl ShrinkImpossible))"

text \<open>
  Modelled from the spec: \<open>storageFolders()\<close>, the snapshot list with usage stats: id,
  path, capacity and number of slots in use of every folder.
\<close>

definition listStorageFolders :: "store \<Rightarrow> (nat \<times> string \<times> nat \<times> nat) list" where
  "listStorageFolders st =
     map (\<lambda>p. (fst p, folderPath (snd p), capacity (snd p),
                capacity (snd p) - freeSlots (snd p))) (folders st)"

text \<open>
  Modelled from the spec: what stopping the thread group, which is all that \<open>Close\<close>
  does, means for these operations: from then on they answer "stopped".
\<close>

definition stopStore :: "store \<Rightarrow> store" where
  "stopStore st = st\<lparr>shutdown := True\<rparr>"

text \<open>
  The operations, and the state each leaves behind; an operation that answers with an
  error leaves the state as it was.
\<close>

datatype operation =
    AddSector Hash string
  | AddSectorBatch "(Hash \<times> string) list"
  | RemoveSector sectorID
  | ReadSector sectorID
  | AddStorageFolder string nat
  | ResizeStorageFolder nat nat
  | RemoveStorageFolder nat bool
  | StorageFolders
  | CloseManager

fun perform :: "externals \<Rightarrow> store \<Rightarrow> operation \<Rightarrow> store" where
  "perform x st (AddSector root payload) =
     (case addSector x st root payload of Inl e \<Rightarrow> st | Inr r \<Rightarrow> snd r)"
| "perform x st (AddSectorBatch items) = snd (addSectorBatch x st items)"
| "perform x st (RemoveSector sid) =
     (case removeSector st sid of Inl e \<Rightarrow> st | Inr st' \<Rightarrow> st')"
| "perform x st (ReadSector sid) = st"
| "perform x st (AddStorageFolder p cap) =
     (case addStorageFolder x st p cap of Inl e \<Rightarrow> st | Inr st' \<Rightarrow> st')"
| "perform x st (ResizeStorageFolder fid newCap) =
     (case resizeStorageFolder x st fid newCap of Inl e \<Rightarrow> st | Inr st' \<Rightarrow> st')"
| "perform x st (RemoveStorageFolder fid force) =
     (case removeStorageFolder x st fid force of Inl e \<Rightarrow> st | Inr st' \<Rightarrow> st')"
| "perform x st StorageFolders = st"
| "perform x st CloseManager = stopStore st"

text \<open>
  The started manager as a whole: the running state that \<open>newContractManager\<close> built,
  and the store that the operations above work on. \<open>Close\<close> is the code's \<open>Close\<close>
  on the running state and stops the store; every other operation works on the store.
\<close>

fun performOn :: "dependencies \<Rightarrow> externals \<Rightarrow> run \<times> store \<Rightarrow> operation \<Rightarrow> run \<times> store" where
  "performOn d x m CloseManager = (snd (Close d (fst m)), perform x (snd m) CloseManager)"
| "performOn d x m op = (fst m, perform x (snd m) op)"

text \<open>
  The first scenario of the specification: one folder of capacity 64, all free, for a host
  whose sectors have four bytes; and the same host after the sector with root 7 and the
  content AAAA has been added.
\<close>

definition exampleExternals :: externals where
  "exampleExternals =
     \<lparr>sectorID_of = (\<lambda>s r. (s + r) mod 2 ^ 96), placement = (\<lambda>sid. sid),
      deviceFree = (\<lambda>p. 1024)\<rparr>"

definition emptyFolder :: folder where
  "emptyFolder =
     \<lparr>folderPath = ''/data/a'', capacity = 64, usage = replicate 64 False, sectorFile = [],
      available = True\<rparr>"

definition exampleStore :: store where
  "exampleStore =
     \<lparr>sectorSize = 4, granularity = 64, hostSalt = 12345, folders = [(0, emptyFolder)],
      locations = [], shutdown = False\<rparr>"


section \<open>Properties of the contract manager\<close>

lemma closeFolder_cm [simp]: "cm (closeFolder r isf) = cm r"
  by (simp add: closeFolder_def emit_def Let_def)

lemma closeFolder_trace: "trace (closeFolder r isf) = trace r @ folderEvents isf"
  by (simp add: closeFolder_def emit_def Let_def folderEvents_def)

lemma foldl_closeFolder_cm [simp]: "cm (foldl closeFolder r sfs) = cm r"
  by (induction sfs arbitrary: r) simp_all

lemma foldl_closeFolder_trace:
  "trace (foldl closeFolder r sfs) = trace r @ concat (map folderEvents sfs)"
  by (induction sfs arbitrary: r) (simp_all add: closeFolder_trace)

lemma callCleanup_cm [simp]: "cm (callCleanup d fn r) = cm r"
  by (cases fn) (simp_all add: callCleanup_def emit_def Let_def)

lemma callCleanup_trace:
  "trace (callCleanup d fn r) = trace r @ cleanupEvents (storageFolders (cm r)) fn"
  by (cases fn)
     (simp_all add: callCleanup_def emit_def Let_def cleanupEvents_def foldl_closeFolder_trace)

lemma fold_callCleanup_cm [simp]: "cm (fold (callCleanup d) fns r) = cm r"
  by (induction fns arbitrary: r) simp_all

lemma fold_callCleanup_trace:
  "trace (fold (callCleanup d) fns r) =
     trace r @ concat (map (cleanupEvents (storageFolders (cm r))) fns)"
  by (induction fns arbitrary: r) (simp_all add: callCleanup_trace)

lemma tg_Stop_cm:
  "cm (snd (tg_Stop d r)) = (cm r)\<lparr>tg := (tg (cm r))\<lparr>stopped := True\<rparr>\<rparr>"
  by (simp add: tg_Stop_def Let_def emit_def)

lemma tg_Stop_trace:
  "trace (snd (tg_Stop d r)) =
     trace r @ TgStop #
       concat (map (cleanupEvents (storageFolders (cm r))) (rev (afterStopFns (tg (cm r)))))"
  by (simp add: tg_Stop_def Let_def emit_def fold_callCleanup_trace)

lemma tg_Stop_fst [simp]: "fst (tg_Stop d r) = stopResult d"
  by (simp add: tg_Stop_def Let_def)

lemma deferred_cm:
  "cm (deferred d r) =
     (if err r \<noteq> None then (cm r)\<lparr>tg := (tg (cm r))\<lparr>stopped := True\<rparr>\<rparr> else cm r)"
  by (simp add: deferred_def Let_def split_beta tg_Stop_cm)

lemma deferred_trace:
  "trace (deferred d r) =
     (if err r \<noteq> None
      then trace r @ TgStop #
             concat (map (cleanupEvents (storageFolders (cm r))) (rev (afterStopFns (tg (cm r)))))
      else trace r)"
  by (simp add: deferred_def Let_def split_beta tg_Stop_trace)

lemmas startup_defs =
  newContractManager_def return_nil_def return_cm_def loadSettings_def wal_load_def
  loadSectorLocations_def wal_spawnSyncLoop_def AfterStop_def emit_def

lemma startup_mkdir_fails:
  assumes "mkdirAll d dir 448 = Some e"
  shows "fst (newContractManager d dir) =
           (None, Some (Extended
              ''error while creating the persist directory for the contract manager'' e))"
    and "trace (snd (newContractManager d dir)) =
           [Init, MkdirAll dir 448, TgStop, AfterStopCall DestructDependencies, Destruct]"
    and "tg (cm (snd (newContractManager d dir))) =
           \<lparr>stopped = True, afterStopFns = [DestructDependencies]\<rparr>"
  using assms
  by (simp_all add: startup_defs Let_def deferred_trace deferred_cm cleanupEvents_def)

lemma startup_ok:
  assumes "mkdirAll d dir 448 = None" "newLogger d (filepath_Join dir logFile) = None"
    "settingsFile d = Inr salt" "walFile d = Inr sfs" "syncLoop d = None"
    "\<not> disrupt d ''erroredStartup''"
  shows "fst (newContractManager d dir) =
           (Some (cm (snd (newContractManager d dir))), None)"
    and "trace (snd (newContractManager d dir)) =
           [Init, MkdirAll dir 448, NewLogger (filepath_Join dir logFile), LoadSettings, WalLoad,
            LoadSectorLocations, SpawnSyncLoop, Disrupt ''erroredStartup'']"
    and "cm (snd (newContractManager d dir)) =
           \<lparr>sectorSalt = salt, sectorLocations = folderMetadata d, storageFolders = sfs,
            lockedSectors = [], log = Some (filepath_Join dir logFile), persistDir = dir,
            tg = \<lparr>stopped = False,
                  afterStopFns = [DestructDependencies, CloseLogger, UnloadFiles]\<rparr>\<rparr>"
  using assms
  by (simp_all add: startup_defs Let_def deferred_trace deferred_cm cleanupEvents_def)

lemma startup_logger_fails:
  assumes "mkdirAll d dir 448 = None" "newLogger d (filepath_Join dir logFile) = Some e"
  shows "fst (newContractManager d dir) =
           (None, Some (Extended ''error while creating the logger for the contract manager'' e))"
    and "trace (snd (newContractManager d dir)) =
           [Init, MkdirAll dir 448, NewLogger (filepath_Join dir logFile),
            TgStop, AfterStopCall DestructDependencies, Destruct]"
    and "tg (cm (snd (newContractManager d dir))) =
           \<lparr>stopped = True, afterStopFns = [DestructDependencies]\<rparr>"
  using assms
  by (simp_all add: startup_defs Let_def deferred_trace deferred_cm cleanupEvents_def)

lemma startup_settings_fail:
  assumes "mkdirAll d dir 448 = None" "newLogger d (filepath_Join dir logFile) = None"
    "settingsFile d = Inl e"
  shows "fst (newContractManager d dir) =
           (None, Some (Extended ''error while loading contract manager atomic data'' e))"
    and "trace (snd (newContractManager d dir)) =
           [Init, MkdirAll dir 448, NewLogger (filepath_Join dir logFile), LoadSettings,
            LogPrintln ''ERROR: Unable to load contract manager settings:'' (Some e),
            TgStop, AfterStopCall CloseLogger, LogClose,
            AfterStopCall DestructDependencies, Destruct]"
    and "tg (cm (snd (newContractManager d dir))) =
           \<lparr>stopped = True, afterStopFns = [DestructDependencies, CloseLogger]\<rparr>"
  using assms
  by (simp_all add: startup_defs Let_def deferred_trace deferred_cm cleanupEvents_def)

lemma startup_wal_fails:
  assumes "mkdirAll d dir 448 = None" "newLogger d (filepath_Join dir logFile) = None"
    "settingsFile d = Inr salt" "walFile d = Inl e"
  shows "fst (newContractManager d dir) =
           (None, Some (Extended ''error while loading the WAL at startup'' e))"
    and "trace (snd (newContractManager d dir)) =
           [Init, MkdirAll dir 448, NewLogger (filepath_Join dir logFile), LoadSettings, WalLoad,
            LogPrintln ''ERROR: Unable to load the contract manager write-ahead-log:'' (Some e),
            TgStop, AfterStopCall CloseLogger, LogClose,
            AfterStopCall DestructDependencies, Destruct]"
    and "tg (cm (snd (newContractManager d dir))) =
           \<lparr>stopped = True, afterStopFns = [DestructDependencies, CloseLogger]\<rparr>"
  using assms
  by (simp_all add: startup_defs Let_def deferred_trace deferred_cm cleanupEvents_def)

lemma startup_syncLoop_fails:
  assumes "mkdirAll d dir 448 = None" "newLogger d (filepath_Join dir logFile) = None"
    "settingsFile d = Inr salt" "walFile d = Inr sfs" "syncLoop d = Some e"
  shows "fst (newContractManager d dir) =
           (None, Some (Extended ''error while spawning contract manager sync loop'' e))"
    and "trace (snd (newContractManager d dir)) =
           [Init, MkdirAll dir 448, NewLogger (filepath_Join dir logFile), LoadSettings, WalLoad,
            LoadSectorLocations, SpawnSyncLoop,
            LogPrintln ''ERROR: Unable to spawn the contract manager synchronization loop:''
              (Some e),
            TgStop, AfterStopCall UnloadFiles, WalLock] @ concat (map folderEvents sfs) @
           [WalUnlock, AfterStopCall CloseLogger, LogClose,
            AfterStopCall DestructDependencies, Destruct]"
    and "tg (cm (snd (newContractManager d dir))) =
           \<lparr>stopped = True,
            afterStopFns = [DestructDependencies, CloseLogger, UnloadFiles]\<rparr>"
  using assms
  by (simp_all add: startup_defs Let_def deferred_trace deferred_cm cleanupEvents_def)

lemma startup_disrupted:
  assumes "mkdirAll d dir 448 = None" "newLogger d (filepath_Join dir logFile) = None"
    "settingsFile d = Inr salt" "walFile d = Inr sfs" "syncLoop d = None"
    "disrupt d ''erroredStartup''"
  shows "fst (newContractManager d dir) = (None, Some (ErrorNew ''startup disrupted''))"
    and "trace (snd (newContractManager d dir)) =
           [Init, MkdirAll dir 448, NewLogger (filepath_Join dir logFile), LoadSettings, WalLoad,
            LoadSectorLocations, SpawnSyncLoop, Disrupt ''erroredStartup'',
            TgStop, AfterStopCall UnloadFiles, WalLock] @ concat (map folderEvents sfs) @
           [WalUnlock, AfterStopCall CloseLogger, LogClose,
            AfterStopCall DestructDependencies, Destruct]"
    and "tg (cm (snd (newContractManager d dir))) =
           \<lparr>stopped = True,
            afterStopFns = [DestructDependencies, CloseLogger, UnloadFiles]\<rparr>"
  using assms
  by (simp_all add: startup_defs Let_def deferred_trace deferred_cm cleanupEvents_def)

lemma startup_outcomes:
  obtains
    (mkdir) e where "mkdirAll d dir 448 = Some e"
  | (logger) e where "mkdirAll d dir 448 = None"
      "newLogger d (filepath_Join dir logFile) = Some e"
  | (settings) e where "mkdirAll d dir 448 = None"
      "newLogger d (filepath_Join dir logFile) = None" "settingsFile d = Inl e"
  | (wal) salt e where "mkdirAll d dir 448 = None"
      "newLogger d (filepath_Join dir logFile) = None" "settingsFile d = Inr salt"
      "walFile d = Inl e"
  | (syncloop) salt sfs e where "mkdirAll d dir 448 = None"
      "newLogger d (filepath_Join dir logFile) = None" "settingsFile d = Inr salt"
      "walFile d = Inr sfs" "syncLoop d = Some e"
  | (disrupted) salt sfs where "mkdirAll d dir 448 = None"
      "newLogger d (filepath_Join dir logFile) = None" "settingsFile d = Inr salt"
      "walFile d = Inr sfs" "syncLoop d = None" "disrupt d ''erroredStartup''"
  | (ok) salt sfs where "mkdirAll d dir 448 = None"
      "newLogger d (filepath_Join dir logFile) = None" "settingsFile d = Inr salt"
      "walFile d = Inr sfs" "syncLoop d = None" "\<not> disrupt d ''erroredStartup''"
proof -
  show ?thesis
    by (cases "mkdirAll d dir 448"; cases "newLogger d (filepath_Join dir logFile)";
        cases "settingsFile d"; cases "walFile d"; cases "syncLoop d";
        cases "disrupt d ''erroredStartup''") (auto intro: that)
qed

lemma folderEvents_noStartup:
  "WalLoad \<notin> set (folderEvents isf)" "LoadSectorLocations \<notin> set (folderEvents isf)"
  "SpawnSyncLoop \<notin> set (folderEvents isf)" "LoadSettings \<notin> set (folderEvents isf)"
  "Destruct \<notin> set (folderEvents isf)" "TgStop \<notin> set (folderEvents isf)"
  by (simp_all add: folderEvents_def)

text \<open>
  C1. At startup the sector-location index is rebuilt only after recovery: in every run of
  \<open>newContractManager\<close>, \<open>wal.load\<close> is called only after the settings were
  loaded successfully, \<open>loadSectorLocations\<close> only after \<open>wal.load\<close> was called
  and succeeded, and the sync loop is spawned only after \<open>loadSectorLocations\<close>, with
  the settings and the WAL both loaded.
\<close>

theorem C1_recovery_before_index:
  "let tr = trace (snd (newContractManager d dir)) in
     (WalLoad \<in> set tr \<longrightarrow> precedes LoadSettings WalLoad tr \<and> \<not> isl (settingsFile d)) \<and>
     (LoadSectorLocations \<in> set tr \<longrightarrow>
        precedes WalLoad LoadSectorLocations tr \<and> \<not> isl (walFile d)) \<and>
     (SpawnSyncLoop \<in> set tr \<longrightarrow>
        precedes LoadSectorLocations SpawnSyncLoop tr \<and>
        \<not> isl (settingsFile d) \<and> \<not> isl (walFile d))"
proof (cases rule: startup_outcomes [of d dir])
  case (mkdir e)
  then show ?thesis by (simp add: startup_mkdir_fails)
next
  case (logger e)
  then show ?thesis by (simp add: startup_logger_fails)
next
  case (settings e)
  then show ?thesis by (simp add: startup_settings_fail)
next
  case (wal salt e)
  then show ?thesis by (simp add: startup_wal_fails precedes_def)
next
  case (syncloop salt sfs e)
  then show ?thesis
    by (simp add: startup_syncLoop_fails precedes_def folderEvents_noStartup)
next
  case (disrupted salt sfs)
  then show ?thesis
    by (simp add: startup_disrupted precedes_def folderEvents_noStartup)
next
  case (ok salt sfs)
  then show ?thesis by (simp add: startup_ok precedes_def)
qed

lemma okDeps_startup:
  "mkdirAll okDeps dir 448 = None" "newLogger okDeps (filepath_Join dir logFile) = None"
  "settingsFile okDeps = Inr 7"
  "walFile okDeps = Inr [(3, \<lparr>metadataFile_Close = None,
                             sectorFile_Close = Some (ErrorNew ''bad file descriptor'')\<rparr>)]"
  "syncLoop okDeps = None" "\<not> disrupt okDeps ''erroredStartup''"
  by (simp_all add: okDeps_def)

lemmas okDeps_run = startup_ok [OF okDeps_startup]

theorem C1_recovery_before_index_witness:
  "WalLoad \<in> set (trace (snd (newContractManager okDeps ''/host''))) \<and>
   LoadSectorLocations \<in> set (trace (snd (newContractManager okDeps ''/host''))) \<and>
   SpawnSyncLoop \<in> set (trace (snd (newContractManager okDeps ''/host''))) \<and>
   precedes LoadSettings WalLoad (trace (snd (newContractManager okDeps ''/host''))) \<and>
   precedes WalLoad LoadSectorLocations (trace (snd (newContractManager okDeps ''/host''))) \<and>
   precedes LoadSectorLocations SpawnSyncLoop (trace (snd (newContractManager okDeps ''/host'')))"
proof -
  let ?tr = "trace (snd (newContractManager okDeps ''/host''))"
  have h: "WalLoad \<in> set ?tr" "LoadSectorLocations \<in> set ?tr" "SpawnSyncLoop \<in> set ?tr"
    by (simp_all add: okDeps_run)
  from C1_recovery_before_index [of okDeps "''/host''", unfolded Let_def] h
  show ?thesis by blast
qed

lemma calls_append [simp]: "calls (xs @ ys) = calls xs @ calls ys"
  by (induction xs rule: calls.induct) simp_all

lemma calls_folderEvents [simp]: "calls (concat (map folderEvents sfs)) = []"
  by (induction sfs) (simp_all add: folderEvents_def)

lemma folderEvents_own:
  "MetadataFileClose (fst isf) \<in> set (folderEvents isf)"
  "SectorFileClose (fst isf) \<in> set (folderEvents isf)"
  by (simp_all add: folderEvents_def)

lemma carries_refl [simp]: "carries u u"
  by (cases u) simp_all

text \<open>
  C2. Whenever a step of startup fails (creating the persist directory, creating the logger,
  loading the settings, loading the WAL, spawning the sync loop, or the \<open>erroredStartup\<close>
  disruption), \<open>newContractManager\<close> returns a nil manager and a non-nil error that
  carries the failure, and by then the thread group has been stopped and has invoked every
  closure registered so far, the last registered first.
\<close>

theorem C2_startup_failure:
  assumes "startupFailure d dir = Some u"
  shows "case newContractManager d dir of
           ((c, e), r) \<Rightarrow>
             c = None \<and> (\<exists>x. e = Some x \<and> carries u x) \<and>
             stopped (tg (cm r)) \<and> TgStop \<in> set (trace r) \<and>
             calls (dropWhile (\<lambda>e. e \<noteq> TgStop) (trace r)) = rev (afterStopFns (tg (cm r)))"
proof -
  let ?res = "newContractManager d dir"
  have "fst (fst ?res) = None \<and> (\<exists>x. snd (fst ?res) = Some x \<and> carries u x) \<and>
        stopped (tg (cm (snd ?res))) \<and> TgStop \<in> set (trace (snd ?res)) \<and>
        calls (dropWhile (\<lambda>e. e \<noteq> TgStop) (trace (snd ?res))) =
          rev (afterStopFns (tg (cm (snd ?res))))"
  proof (cases rule: startup_outcomes [of d dir])
    case (mkdir e)
    with assms show ?thesis by (simp add: startup_mkdir_fails startupFailure_def)
  next
    case (logger e)
    with assms show ?thesis by (simp add: startup_logger_fails startupFailure_def)
  next
    case (settings e)
    with assms show ?thesis by (simp add: startup_settings_fail startupFailure_def)
  next
    case (wal salt e)
    with assms show ?thesis by (simp add: startup_wal_fails startupFailure_def)
  next
    case (syncloop salt sfs e)
    with assms show ?thesis by (simp add: startup_syncLoop_fails startupFailure_def)
  next
    case (disrupted salt sfs)
    with assms show ?thesis by (simp add: startup_disrupted startupFailure_def)
  next
    case (ok salt sfs)
    with assms show ?thesis by (simp add: startupFailure_def)
  qed
  then show ?thesis by (simp add: split_beta)
qed

theorem C2_startup_failure_witness:
  "startupFailure syncFailDeps ''/host'' = Some (ErrorNew ''thread group stopped'') \<and>
   (case newContractManager syncFailDeps ''/host'' of
      ((c, e), r) \<Rightarrow>
        c = None \<and> (\<exists>x. e = Some x \<and> carries (ErrorNew ''thread group stopped'') x) \<and>
        stopped (tg (cm r)) \<and> TgStop \<in> set (trace r) \<and>
        calls (dropWhile (\<lambda>e. e \<noteq> TgStop) (trace r)) = rev (afterStopFns (tg (cm r))))"
proof -
  have h: "startupFailure syncFailDeps ''/host'' = Some (ErrorNew ''thread group stopped'')"
    by (simp add: startupFailure_def syncFailDeps_def okDeps_def)
  from h C2_startup_failure [OF h] show ?thesis by (rule conjI)
qed

lemma Close_snd: "snd (Close d r) = snd (tg_Stop d r)"
  by (simp add: Close_def split_beta)

text \<open>
  C5. \<open>newContractManager\<close> registers \<open>dependencies.destruct\<close> first, before the
  closure that closes the logger and before the one that closes the storage folders' files:
  the registered closures are always an initial part of that sequence. So, whether the stop
  comes from a failed startup or from \<open>Close\<close> after a successful one, the closures are
  invoked in reverse order and \<open>destruct\<close> is the very last call, after the logger and
  every storage-folder file handle have been closed.
\<close>

theorem C5_destruct_runs_last:
  "let res = newContractManager d dir; r = snd res; fns = afterStopFns (tg (cm r));
       tr = (if fst (fst res) = None then trace r else trace (snd (Close d' r)))
   in (\<exists>n\<ge>1. fns = take n [DestructDependencies, CloseLogger, UnloadFiles]) \<and>
      calls tr = rev fns \<and>
      last tr = Destruct \<and> Destruct \<notin> set (butlast tr) \<and>
      (CloseLogger \<in> set fns \<longrightarrow> LogClose \<in> set (butlast tr)) \<and>
      (UnloadFiles \<in> set fns \<longrightarrow>
         (\<forall>isf \<in> set (storageFolders (cm r)).
            MetadataFileClose (fst isf) \<in> set (butlast tr) \<and>
            SectorFileClose (fst isf) \<in> set (butlast tr)))"
proof -
  have take1: "\<exists>n\<ge>Suc 0. [DestructDependencies] =
                 take n [DestructDependencies, CloseLogger, UnloadFiles]"
    by (rule exI [of _ 1]) simp
  have take2: "\<exists>n\<ge>Suc 0. [DestructDependencies, CloseLogger] =
                 take n [DestructDependencies, CloseLogger, UnloadFiles]"
    by (rule exI [of _ 2]) simp
  have take3: "\<exists>n\<ge>Suc 0. [DestructDependencies, CloseLogger, UnloadFiles] =
                 take n [DestructDependencies, CloseLogger, UnloadFiles]"
    by (rule exI [of _ 3]) simp
  show ?thesis
  proof (cases rule: startup_outcomes [of d dir])
    case (mkdir e)
    then show ?thesis
      using take1 by (simp add: startup_mkdir_fails Let_def)
  next
    case (logger e)
    then show ?thesis
      using take1 by (simp add: startup_logger_fails Let_def)
  next
    case (settings e)
    then show ?thesis
      using take2 by (simp add: startup_settings_fail Let_def)
  next
    case (wal salt e)
    then show ?thesis
      using take2 by (simp add: startup_wal_fails Let_def)
  next
    case (syncloop salt sfs e)
    have sf: "storageFolders (cm (snd (newContractManager d dir))) = sfs"
      using syncloop
      by (simp add: startup_defs Let_def deferred_cm)
    show ?thesis
      using syncloop take3 folderEvents_own
      by (simp add: startup_syncLoop_fails Let_def sf butlast_append folderEvents_noStartup)
        blast
  next
    case (disrupted salt sfs)
    have sf: "storageFolders (cm (snd (newContractManager d dir))) = sfs"
      using disrupted
      by (simp add: startup_defs Let_def deferred_cm)
    show ?thesis
      using disrupted take3 folderEvents_own
      by (simp add: startup_disrupted Let_def sf butlast_append folderEvents_noStartup)
        blast
  next
    case (ok salt sfs)
    show ?thesis
      using ok take3 folderEvents_own
      by (simp add: startup_ok Let_def Close_snd tg_Stop_trace cleanupEvents_def
          butlast_append folderEvents_noStartup)
        blast
  qed
qed

theorem C5_destruct_runs_last_witness:
  "afterStopFns (tg (cm (snd (newContractManager okDeps ''/host'')))) =
     [DestructDependencies, CloseLogger, UnloadFiles] \<and>
   fst (fst (newContractManager okDeps ''/host'')) \<noteq> None \<and>
   last (trace (snd (Close okDeps (snd (newContractManager okDeps ''/host''))))) = Destruct \<and>
   LogClose \<in> set (butlast
     (trace (snd (Close okDeps (snd (newContractManager okDeps ''/host'')))))) \<and>
   SectorFileClose 3 \<in> set (butlast
     (trace (snd (Close okDeps (snd (newContractManager okDeps ''/host''))))))"
proof -
  let ?r = "snd (newContractManager okDeps ''/host'')"
  have fns: "afterStopFns (tg (cm ?r)) = [DestructDependencies, CloseLogger, UnloadFiles]"
    and ok: "fst (fst (newContractManager okDeps ''/host'')) \<noteq> None"
    and sfs: "(3, \<lparr>metadataFile_Close = None,
                   sectorFile_Close = Some (ErrorNew ''bad file descriptor'')\<rparr>)
              \<in> set (storageFolders (cm ?r))"
    by (simp_all add: okDeps_run)
  from C5_destruct_runs_last [of okDeps "''/host''" okDeps, unfolded Let_def] fns ok sfs
  show ?thesis by fastforce
qed

lemma Close_sectorSalt: "sectorSalt (cm (snd (Close d r))) = sectorSalt (cm r)"
  by (simp add: Close_snd tg_Stop_cm)

section \<open>Properties of the seed scanner\<close>

lemma updateOutput_frame [simp]:
  "keys (updateOutput s diff) = keys s" "dustThreshold (updateOutput s diff) = dustThreshold s"
  "seed (updateOutput s diff) = seed s"
  by (simp_all add: updateOutput_def split: option.splits)

lemma foldl_updateOutput_frame [simp]:
  "keys (foldl updateOutput s ds) = keys s"
  "dustThreshold (foldl updateOutput s ds) = dustThreshold s"
  "seed (foldl updateOutput s ds) = seed s"
  by (induction ds arbitrary: s) simp_all

lemma updateLargestIndexSeen_frame [simp]:
  "keys (updateLargestIndexSeen s uh) = keys s"
  "dustThreshold (updateLargestIndexSeen s uh) = dustThreshold s"
  "seed (updateLargestIndexSeen s uh) = seed s"
  "siacoinOutputs (updateLargestIndexSeen s uh) = siacoinOutputs s"
  by (simp_all add: updateLargestIndexSeen_def split: option.splits)

lemma foldl_updateLargestIndexSeen_frame [simp]:
  "keys (foldl (\<lambda>s x. updateLargestIndexSeen s (f x)) s xs) = keys s"
  "dustThreshold (foldl (\<lambda>s x. updateLargestIndexSeen s (f x)) s xs) = dustThreshold s"
  "seed (foldl (\<lambda>s x. updateLargestIndexSeen s (f x)) s xs) = seed s"
  "siacoinOutputs (foldl (\<lambda>s x. updateLargestIndexSeen s (f x)) s xs) = siacoinOutputs s"
  by (induction xs arbitrary: s) simp_all

lemma ProcessConsensusChange_frame [simp]:
  "keys (ProcessConsensusChange s cc) = keys s"
  "dustThreshold (ProcessConsensusChange s cc) = dustThreshold s"
  "seed (ProcessConsensusChange s cc) = seed s"
  by (simp_all add: ProcessConsensusChange_def Let_def)

lemma ProcessConsensusChange_outputs:
  "siacoinOutputs (ProcessConsensusChange s cc) =
     siacoinOutputs (foldl updateOutput s (SiacoinOutputDiffs cc))"
  by (simp add: ProcessConsensusChange_def Let_def)

lemma updateOutput_recorded:
  assumes "map_of (siacoinOutputs (updateOutput s diff)) oid = Some so"
    and "map_of (siacoinOutputs s) oid \<noteq> Some so"
  shows "Direction diff = DiffApply \<and> ID diff = oid \<and>
         Value (SiacoinOutput diff) > dustThreshold s \<and>
         map_of (keys s) (UnlockHash (SiacoinOutput diff)) = Some (seedIndex so) \<and>
         so = \<lparr>outputID = oid, outputValue = Value (SiacoinOutput diff),
               seedIndex = seedIndex so\<rparr>"
  using assms
  by (auto simp: updateOutput_def update_conv' delete_conv' split: option.splits if_splits)

lemma foldl_updateOutput_recorded:
  assumes "map_of (siacoinOutputs (foldl updateOutput s ds)) oid = Some so"
    and "map_of (siacoinOutputs s) oid \<noteq> Some so"
  shows "\<exists>diff \<in> set ds. Direction diff = DiffApply \<and> ID diff = oid \<and>
         Value (SiacoinOutput diff) > dustThreshold s \<and>
         map_of (keys s) (UnlockHash (SiacoinOutput diff)) = Some (seedIndex so) \<and>
         so = \<lparr>outputID = oid, outputValue = Value (SiacoinOutput diff),
               seedIndex = seedIndex so\<rparr>"
  using assms
proof (induction ds arbitrary: s)
  case Nil
  then show ?case by simp
next
  case (Cons d ds)
  show ?case
  proof (cases "map_of (siacoinOutputs (updateOutput s d)) oid = Some so")
    case True
    from updateOutput_recorded [OF True Cons.prems(2)] show ?thesis by auto
  next
    case False
    from Cons.IH [of "updateOutput s d"] Cons.prems(1) False show ?thesis by auto
  qed
qed


lemma updateOutput_entry:
  "map_of (siacoinOutputs (updateOutput s d)) oid =
     (if takesEffect s oid d then outcome s d else map_of (siacoinOutputs s) oid)"
  by (cases "Direction d")
     (auto simp: updateOutput_def takesEffect_def outcome_def update_conv' delete_conv'
        split: option.splits)

lemma takesEffect_foldl [simp]:
  "takesEffect (foldl updateOutput s ds) = takesEffect s"
  "outcome (foldl updateOutput s ds) = outcome s"
  by (simp_all add: takesEffect_def outcome_def fun_eq_iff)

lemma foldl_updateOutput_entry:
  "map_of (siacoinOutputs (foldl updateOutput s ds)) oid =
     (let es = filter (takesEffect s oid) ds
      in if es = [] then map_of (siacoinOutputs s) oid else outcome s (last es))"
proof (induction ds rule: rev_induct)
  case Nil
  then show ?case by simp
next
  case (snoc d ds)
  then show ?case
    by (simp add: updateOutput_entry Let_def)
qed

text \<open>
  C9. What \<open>ProcessConsensusChange\<close> leaves in \<open>siacoinOutputs\<close> for an output is
  decided by the last of the change's siacoin diffs that takes effect on it: a diff for
  that output whose unlock hash is one of the scanner's keys and which is a revert or an
  applied output worth strictly more than \<open>dustThreshold\<close>. Without such a diff the
  entry stays as it was; after a revert there is none; after an apply it is the scanned
  output. So an entry that is new after the call comes from an applied output for a known
  key worth more than the threshold; applied outputs worth the threshold or less are never
  recorded; and a revert diff for a known key deletes the output, whatever its value,
  unless a later diff of the same change puts it back.
\<close>

theorem C9_records_above_dust:
  "map_of (siacoinOutputs (ProcessConsensusChange s cc)) oid =
     (let es = filter (takesEffect s oid) (SiacoinOutputDiffs cc)
      in if es = [] then map_of (siacoinOutputs s) oid else outcome s (last es)) \<and>
   (\<forall>so. map_of (siacoinOutputs (ProcessConsensusChange s cc)) oid = Some so \<and>
       map_of (siacoinOutputs s) oid \<noteq> Some so \<longrightarrow>
       (\<exists>diff \<in> set (SiacoinOutputDiffs cc).
          Direction diff = DiffApply \<and> ID diff = oid \<and>
          Value (SiacoinOutput diff) > dustThreshold s \<and>
          map_of (keys s) (UnlockHash (SiacoinOutput diff)) = Some (seedIndex so) \<and>
          so = \<lparr>outputID = oid, outputValue = Value (SiacoinOutput diff),
                seedIndex = seedIndex so\<rparr>)) \<and>
   ((\<forall>diff \<in> set (SiacoinOutputDiffs cc).
       ID diff = oid \<longrightarrow> Direction diff = DiffApply \<and>
         Value (SiacoinOutput diff) \<le> dustThreshold s) \<longrightarrow>
      map_of (siacoinOutputs (ProcessConsensusChange s cc)) oid =
        map_of (siacoinOutputs s) oid) \<and>
   (\<forall>pre d post. SiacoinOutputDiffs cc = pre @ d # post \<and> ID d = oid \<and>
       Direction d = DiffRevert \<and>
       map_of (keys s) (UnlockHash (SiacoinOutput d)) \<noteq> None \<and>
       (\<forall>diff \<in> set post. ID diff \<noteq> oid) \<longrightarrow>
      map_of (siacoinOutputs (ProcessConsensusChange s cc)) oid = None)"
proof (intro conjI allI impI)
  show entry: "map_of (siacoinOutputs (ProcessConsensusChange s cc)) oid =
     (let es = filter (takesEffect s oid) (SiacoinOutputDiffs cc)
      in if es = [] then map_of (siacoinOutputs s) oid else outcome s (last es))"
    by (simp add: ProcessConsensusChange_outputs foldl_updateOutput_entry)
  show "\<exists>diff \<in> set (SiacoinOutputDiffs cc).
          Direction diff = DiffApply \<and> ID diff = oid \<and>
          Value (SiacoinOutput diff) > dustThreshold s \<and>
          map_of (keys s) (UnlockHash (SiacoinOutput diff)) = Some (seedIndex so) \<and>
          so = \<lparr>outputID = oid, outputValue = Value (SiacoinOutput diff),
                seedIndex = seedIndex so\<rparr>"
    if "map_of (siacoinOutputs (ProcessConsensusChange s cc)) oid = Some so \<and>
       map_of (siacoinOutputs s) oid \<noteq> Some so" for so
    using that
    by (intro foldl_updateOutput_recorded) (simp_all add: ProcessConsensusChange_outputs)
  show "map_of (siacoinOutputs (ProcessConsensusChange s cc)) oid =
        map_of (siacoinOutputs s) oid"
    if "\<forall>diff \<in> set (SiacoinOutputDiffs cc).
       ID diff = oid \<longrightarrow> Direction diff = DiffApply \<and>
         Value (SiacoinOutput diff) \<le> dustThreshold s"
  proof -
    from that have "filter (takesEffect s oid) (SiacoinOutputDiffs cc) = []"
      by (auto simp: filter_empty_conv takesEffect_def)
    with entry show ?thesis by simp
  qed
  show "map_of (siacoinOutputs (ProcessConsensusChange s cc)) oid = None"
    if h: "SiacoinOutputDiffs cc = pre @ d # post \<and> ID d = oid \<and>
       Direction d = DiffRevert \<and>
       map_of (keys s) (UnlockHash (SiacoinOutput d)) \<noteq> None \<and>
       (\<forall>diff \<in> set post. ID diff \<noteq> oid)" for pre d post
  proof -
    from h have "filter (takesEffect s oid) post = []"
      by (auto simp: filter_empty_conv takesEffect_def)
    moreover from h have "takesEffect s oid d"
      by (simp add: takesEffect_def)
    ultimately have "filter (takesEffect s oid) (SiacoinOutputDiffs cc) =
        filter (takesEffect s oid) pre @ [d]"
      using h by simp
    with entry h show ?thesis by (simp add: outcome_def)
  qed
qed



theorem C9_records_above_dust_witness:
  "map_of (siacoinOutputs exampleScanner) 9 \<noteq> None \<and>
   map_of (siacoinOutputs (ProcessConsensusChange exampleScanner exampleChange)) 9 = None \<and>
   map_of (siacoinOutputs (ProcessConsensusChange exampleScanner exampleChange)) 5 = None \<and>
   map_of (siacoinOutputs (ProcessConsensusChange exampleScanner exampleChange)) 6 =
     Some \<lparr>outputID = 6, outputValue = 31, seedIndex = 2\<rparr>"
proof -
  have before: "map_of (siacoinOutputs exampleScanner) 9 \<noteq> None"
    "map_of (siacoinOutputs exampleScanner) 5 = None"
    by (simp_all add: exampleScanner_def)
  have e9: "filter (takesEffect exampleScanner 9) (SiacoinOutputDiffs exampleChange) = [revertDiff]"
    and e5: "filter (takesEffect exampleScanner 5) (SiacoinOutputDiffs exampleChange) = []"
    and e6: "filter (takesEffect exampleScanner 6) (SiacoinOutputDiffs exampleChange) = [aboveDiff]"
    by (simp_all add: takesEffect_def exampleChange_def exampleScanner_def dustDiff_def
        aboveDiff_def revertDiff_def)
  have o: "outcome exampleScanner revertDiff = None"
    "outcome exampleScanner aboveDiff = Some \<lparr>outputID = 6, outputValue = 31, seedIndex = 2\<rparr>"
    by (simp_all add: outcome_def exampleScanner_def aboveDiff_def revertDiff_def)
  from C9_records_above_dust [of exampleScanner exampleChange 9, THEN conjunct1] e9 o
  have a: "map_of (siacoinOutputs (ProcessConsensusChange exampleScanner exampleChange)) 9 = None"
    by simp
  from C9_records_above_dust [of exampleScanner exampleChange 5, THEN conjunct1] e5 before
  have b: "map_of (siacoinOutputs (ProcessConsensusChange exampleScanner exampleChange)) 5 = None"
    by simp
  from C9_records_above_dust [of exampleScanner exampleChange 6, THEN conjunct1] e6 o
  have c: "map_of (siacoinOutputs (ProcessConsensusChange exampleScanner exampleChange)) 6 =
     Some \<lparr>outputID = 6, outputValue = 31, seedIndex = 2\<rparr>"
    by simp
  from before(1) a b c show ?thesis by (intro conjI)
qed





lemma generateKeys_largestIndexSeen [simp]:
  "largestIndexSeen (seedScanner_generateKeys g s n) = largestIndexSeen s"
  by (simp add: seedScanner_generateKeys_def Let_def)

lemma foldl_ProcessConsensusChange_frame [simp]:
  "keys (foldl ProcessConsensusChange s ccs) = keys s"
  "seed (foldl ProcessConsensusChange s ccs) = seed s"
  by (induction ccs arbitrary: s) simp_all













section \<open>Properties of the host uploader\<close>

text \<open>
  C3. The claim that \<open>Close\<close> ignores the result of submitting the last revision fails:
  with the same uploader and the same connection, \<open>Close\<close> returns nil when the pool
  accepts the transaction set and the pool's error when it refuses it.
\<close>

theorem C3_Close_ignores_result_counterexample:
  "writeEmptyRevision refusingPool = writeEmptyRevision acceptingPool \<and>
   conn_Close refusingPool = conn_Close acceptingPool \<and>
   fst (hostUploader_Close acceptingPool exampleUploader) = None \<and>
   fst (hostUploader_Close refusingPool exampleUploader) =
     Some (ErrorNew ''transaction set is invalid'')"
  by (simp add: hostUploader_Close_def acceptingPool_def refusingPool_def)

text \<open>
  C3, as the code has it. \<open>Close\<close> returns exactly what the transaction pool answered
  to the set holding the last revision transaction; what it ignores are the results of writing
  the empty revision and of closing the connection.
\<close>

theorem C3_Close_returns_submission_result:
  "fst (hostUploader_Close env hu) = tpool_AcceptTransactionSet env [lastTxn hu] \<and>
   hostUploader_Close (env\<lparr>writeEmptyRevision := w, conn_Close := c\<rparr>) hu =
     hostUploader_Close env hu"
  by (simp add: hostUploader_Close_def)

lemma proposedContract_cong:
  "settings a = settings b \<Longrightarrow> unlockConditions a = unlockConditions b \<Longrightarrow>
   blockHeight (renter a) = blockHeight (renter b) \<Longrightarrow>
   proposedContract env a filesize duration addr = proposedContract env b filesize duration addr"
  by (simp add: proposedContract_def)

text \<open>
  C4. Whenever \<open>negotiateContract\<close> succeeds, the id it stores for the new contract, in
  the uploader and as the key of the renter's contract table, is
  \<open>txn.FileContractID(0)\<close> of the transaction that \<open>View()\<close> returned, whatever that
  transaction contains.
\<close>

theorem C4_contract_id_is_index_0:
  assumes "negotiateContract env hu filesize duration addr = (None, hu', dropped)"
  shows "let fc = proposedContract env hu' filesize duration addr;
             txn = fst (builder_View env fc)
         in fcID (contract hu') = FileContractID env txn 0 \<and>
            map_of (contracts (renter hu')) (FileContractID env txn 0) = Some fc"
proof -
  from assms obtain hostPublicKey where key: "readHostPublicKey env = Inr hostPublicKey"
    by (cases "readHostPublicKey env")
      (auto simp: negotiateContract_def fail_def split: option.splits)
  define hu2 where "hu2 = hu\<lparr>secretKey :=
        fst (GenerateDeterministic env (HashAll env (entropy (renter hu)) hostPublicKey)),
      unlockConditions := \<lparr>PublicKeys =
        [\<lparr>Algorithm = SignatureEd25519,
          Key = snd (GenerateDeterministic env (HashAll env (entropy (renter hu)) hostPublicKey))\<rparr>,
         hostPublicKey], SignaturesRequired = 2\<rparr>\<rparr>"
  define fc where "fc = proposedContract env hu2 filesize duration addr"
  define fcid where "fcid = FileContractID env (fst (builder_View env fc)) 0"
  have hu': "hu' = hu2\<lparr>contract := \<lparr>fcID = fcid, fcIP = IPAddress (settings hu2),
                            fcWindowStart = WindowStart fc\<rparr>,
               renter := (renter hu2)\<lparr>contracts :=
                            AList.update fcid fc (contracts (renter hu2))\<rparr>\<rparr>"
    using assms key unfolding negotiateContract_def Let_def fail_def hu2_def fc_def fcid_def
    by (simp split: option.splits sum.splits if_splits)
  have "proposedContract env hu' filesize duration addr = fc"
    unfolding fc_def by (rule proposedContract_cong) (simp_all add: hu')
  then show ?thesis
    by (simp add: Let_def hu' fcid_def update_conv')
qed

theorem C4_contract_id_is_index_0_witness:
  "fst (negotiateContract exampleNegotiation exampleUploader 1000 50 3) = None \<and>
   (let hu' = fst (snd (negotiateContract exampleNegotiation exampleUploader 1000 50 3));
        fc = proposedContract exampleNegotiation hu' 1000 50 3;
        txn = fst (builder_View exampleNegotiation fc)
    in FileContracts txn = [otherContract, fc] \<and>
       fcID (contract hu') = FileContractID exampleNegotiation txn 0 \<and>
       map_of (contracts (renter hu')) (FileContractID exampleNegotiation txn 0) = Some fc)"
proof -
  let ?r = "negotiateContract exampleNegotiation exampleUploader 1000 50 3"
  have ok: "fst ?r = None"
    by (simp add: negotiateContract_def exampleNegotiation_def exampleUploader_def
        AcceptResponse_def emptyTransaction_def Let_def)
  then have eq: "?r = (None, fst (snd ?r), snd (snd ?r))"
    by (metis prod.collapse)
  have view: "FileContracts (fst (builder_View exampleNegotiation fc)) = [otherContract, fc]"
    for fc by (simp add: exampleNegotiation_def)
  from C4_contract_id_is_index_0 [OF eq] ok view show ?thesis
    by (simp add: Let_def)
qed

section \<open>Properties of the host weight\<close>

text \<open>
  \<open>entryWeight\<close> never divides by zero: each of the three fields that is not positive is
  replaced by 1, the square root of a positive price is positive, and the weight is defined
  and not negative.
\<close>

lemma sqrt_below_pos: "0 < n \<Longrightarrow> 0 < k \<Longrightarrow> 0 < sqrt_below n k"
proof (induction k)
  case 0
  then show ?case by simp
next
  case (Suc k)
  show ?case
  proof (cases "k = 0")
    case True
    with Suc.prems show ?thesis by simp
  next
    case False
    with Suc show ?thesis by simp
  qed
qed

lemma Currency_Sqrt_pos: "0 < c \<Longrightarrow> 0 < Currency_Sqrt c"
  by (simp add: Currency_Sqrt_def sqrt_below_pos)

lemma entryWeight_total: "\<exists>w. entryWeight entry = Some w \<and> 0 \<le> w"
proof -
  define p where "p = (if Currency_Sign (Price entry) \<le> 0 then NewCurrency64 1 else Price entry)"
  define c where "c = (if Currency_Sign (Collateral entry) \<le> 0 then NewCurrency64 1
                       else Collateral entry)"
  define f where "f = (if Currency_Sign (Freeze entry) \<le> 0 then NewCurrency64 1
                       else Freeze entry)"
  have pos: "0 < p" "0 < c" "0 < f"
    by (simp_all add: p_def c_def f_def Currency_Sign_def NewCurrency64_def u64_def sgn_if
        split: if_splits)
  have w: "entryWeight entry = Currency_Div (Currency_Mul f c) (Currency_Sqrt p)"
    by (simp add: entryWeight_def Let_def p_def c_def f_def)
  from Currency_Sqrt_pos [OF pos(1)] pos show ?thesis
    by (simp add: w Currency_Div_def Currency_Mul_def pos_imp_zdiv_nonneg_iff)
qed

text \<open>
  C10. The weight is not always positive, although the three fields are raised to 1 so that
  every host has some weight: the quotient is rounded down, and the host with price 4,
  collateral 1 and freeze 1 gets \<open>1 * 1 / sqrt 4 = 1 / 2\<close>, which is the weight 0.
\<close>

theorem C10_weight_can_be_zero:
  "entryWeight cheapHost = Some 0"
  by (simp add: entryWeight_def cheapHost_def Currency_Sign_def Currency_Div_def
      Currency_Mul_def Currency_Sqrt_def Let_def eval_nat_numeral)

section \<open>Properties of the operations on sectors and storage folders\<close>




lemma writeSlot_read [simp]:
  "available (writeSlot f i payload) = available f"
  "map_of (sectorFile (writeSlot f i payload)) i = Some payload"
  by (simp_all add: writeSlot_def update_conv')







text \<open>
  None of the operations writes the salt.
\<close>

lemma addSector_hostSalt:
  "addSector x st root payload = Inr (sid, st') \<Longrightarrow> hostSalt st' = hostSalt st"
  by (auto simp: addSector_def Let_def split: if_splits option.splits)

lemma addSectorBatch_hostSalt: "hostSalt (snd (addSectorBatch x st items)) = hostSalt st"
proof (induction items arbitrary: st)
  case Nil
  then show ?case by simp
next
  case (Cons item items)
  show ?case
  proof (cases "addSector x st (fst item) (snd item)")
    case (Inl e)
    with Cons show ?thesis by simp
  next
    case (Inr r)
    then have "hostSalt (snd r) = hostSalt st"
      using addSector_hostSalt [of x st "fst item" "snd item" "fst r" "snd r"] by simp
    with Cons Inr show ?thesis by simp
  qed
qed

lemma removeSector_hostSalt: "removeSector st sid = Inr st' \<Longrightarrow> hostSalt st' = hostSalt st"
  by (auto simp: removeSector_def split: if_splits option.splits)

lemma addStorageFolder_hostSalt:
  "addStorageFolder x st p cap = Inr st' \<Longrightarrow> hostSalt st' = hostSalt st"
  by (auto simp: addStorageFolder_def split: if_splits)

lemma relocate_hostSalt: "relocate x fid st sid = Some st' \<Longrightarrow> hostSalt st' = hostSalt st"
  by (auto simp: relocate_def Let_def split: option.splits)

lemma evacuate_hostSalt: "evacuate x fid st sids = Some st' \<Longrightarrow> hostSalt st' = hostSalt st"
proof (induction sids arbitrary: st)
  case Nil
  then show ?case by simp
next
  case (Cons sid sids)
  then show ?case
    by (auto split: option.splits dest: relocate_hostSalt)
qed

lemma resizeStorageFolder_hostSalt:
  "resizeStorageFolder x st fid newCap = Inr st' \<Longrightarrow> hostSalt st' = hostSalt st"
  by (auto simp: resizeStorageFolder_def split: if_splits option.splits
      dest: evacuate_hostSalt)

lemma removeStorageFolder_hostSalt:
  "removeStorageFolder x st fid force = Inr st' \<Longrightarrow> hostSalt st' = hostSalt st"
  by (auto simp: removeStorageFolder_def split: if_splits option.splits
      dest: evacuate_hostSalt)

lemma perform_hostSalt: "hostSalt (perform x st op) = hostSalt st"
proof (cases op)
  case (AddSector root payload)
  then show ?thesis
    by (cases "addSector x st root payload") (auto dest: addSector_hostSalt)
next
  case (AddSectorBatch items)
  then show ?thesis by (simp add: addSectorBatch_hostSalt)
next
  case (RemoveSector sid)
  then show ?thesis
    by (cases "removeSector st sid") (auto dest: removeSector_hostSalt)
next
  case (AddStorageFolder p cap)
  then show ?thesis
    by (cases "addStorageFolder x st p cap") (auto dest: addStorageFolder_hostSalt)
next
  case (ResizeStorageFolder fid newCap)
  then show ?thesis
    by (cases "resizeStorageFolder x st fid newCap") (auto dest: resizeStorageFolder_hostSalt)
next
  case (RemoveStorageFolder fid force)
  then show ?thesis
    by (cases "removeStorageFolder x st fid force") (auto dest: removeStorageFolder_hostSalt)
qed (simp_all add: stopStore_def)

lemma foldl_perform_hostSalt: "hostSalt (foldl (perform x) st ops) = hostSalt st"
  by (induction ops arbitrary: st) (simp_all add: perform_hostSalt)

section \<open>The salt after startup\<close>

lemma performOn_salt:
  "sectorSalt (cm (fst (performOn d x m op))) = sectorSalt (cm (fst m)) \<and>
   hostSalt (snd (performOn d x m op)) = hostSalt (snd m)"
  by (cases op) (simp_all add: Close_sectorSalt perform_hostSalt del: perform.simps)

lemma foldl_performOn_salt:
  "sectorSalt (cm (fst (foldl (performOn d x) m ops))) = sectorSalt (cm (fst m)) \<and>
   hostSalt (snd (foldl (performOn d x) m ops)) = hostSalt (snd m)"
  by (induction ops arbitrary: m) (simp_all add: performOn_salt)

text \<open>
  C6. After a successful startup the manager's \<open>sectorSalt\<close> is the salt of the
  settings, and no later operation changes it: after any sequence of operations of the
  contract manager (adding, reading and removing sectors, adding, resizing and removing
  storage folders, listing them, and \<open>Close\<close>, in any environment) the \<open>sectorSalt\<close>
  of the manager, and the salt that the sector operations hash with, are the salt that
  startup loaded.
\<close>

theorem C6_sectorSalt_unchanged:
  assumes "fst (newContractManager d dir) = (Some c, e)" and "hostSalt st = sectorSalt c"
  shows "settingsFile d = Inr (sectorSalt c) \<and>
         sectorSalt (cm (fst (foldl (performOn d' x) (snd (newContractManager d dir), st) ops))) =
           sectorSalt c \<and>
         hostSalt (snd (foldl (performOn d' x) (snd (newContractManager d dir), st) ops)) =
           sectorSalt c"
proof (cases rule: startup_outcomes [of d dir])
  case (ok salt sfs)
  from startup_ok(1,3) [OF ok] assms(1)
  have c: "cm (snd (newContractManager d dir)) = c" "sectorSalt c = salt"
    by simp_all
  with assms(2) ok(3) foldl_performOn_salt [of d' x "(snd (newContractManager d dir), st)" ops]
  show ?thesis by simp
qed (use assms in \<open>simp_all add: startup_mkdir_fails startup_logger_fails startup_settings_fail
   startup_wal_fails startup_syncLoop_fails startup_disrupted\<close>)

theorem C6_sectorSalt_unchanged_witness:
  "fst (newContractManager okDeps ''/host'') =
     (Some (cm (snd (newContractManager okDeps ''/host''))), None) \<and>
   sectorSalt (cm (snd (newContractManager okDeps ''/host''))) = 7 \<and>
   hostSalt (exampleStore\<lparr>hostSalt := 7\<rparr>) =
     sectorSalt (cm (snd (newContractManager okDeps ''/host''))) \<and>
   sectorSalt (cm (fst (foldl (performOn syncFailDeps exampleExternals)
     (snd (newContractManager okDeps ''/host''), exampleStore\<lparr>hostSalt := 7\<rparr>)
     [AddStorageFolder ''/data/b'' 64, AddSector 7 ''AAAA'', ResizeStorageFolder 0 128,
      RemoveSector 14, CloseManager, ReadSector 14]))) =
     sectorSalt (cm (snd (newContractManager okDeps ''/host''))) \<and>
   hostSalt (snd (foldl (performOn syncFailDeps exampleExternals)
     (snd (newContractManager okDeps ''/host''), exampleStore\<lparr>hostSalt := 7\<rparr>)
     [AddStorageFolder ''/data/b'' 64, AddSector 7 ''AAAA'', ResizeStorageFolder 0 128,
      RemoveSector 14, CloseManager, ReadSector 14])) =
     sectorSalt (cm (snd (newContractManager okDeps ''/host'')))"
proof -
  have h: "fst (newContractManager okDeps ''/host'') =
             (Some (cm (snd (newContractManager okDeps ''/host''))), None)"
    by (rule okDeps_run(1))
  have s: "sectorSalt (cm (snd (newContractManager okDeps ''/host''))) = 7"
    by (simp add: okDeps_run(3))
  have t: "hostSalt (exampleStore\<lparr>hostSalt := 7\<rparr>) =
             sectorSalt (cm (snd (newContractManager okDeps ''/host'')))"
    by (simp add: s)
  note inst = C6_sectorSalt_unchanged [OF h t, of syncFailDeps exampleExternals
      "[AddStorageFolder ''/data/b'' 64, AddSector 7 ''AAAA'', ResizeStorageFolder 0 128,
        RemoveSector 14, CloseManager, ReadSector 14]"]
  from h s t inst [THEN conjunct2, THEN conjunct1] inst [THEN conjunct2, THEN conjunct2]
  show ?thesis by (intro conjI)
qed

end
